theory Spec2Isabelle
  imports Main
begin

section \<open>Transaction confirmation: racing confirmation strategies\<close>

text \<open>
  The TypeScript module embedded here exports \<open>waitForDurableNonceTransactionConfirmation\<close>,
  \<open>waitForRecentTransactionConfirmation\<close> and the two \<open>createDefault...Confirmer\<close>
  factories, all built on the private async function \<open>raceStrategies\<close>.

  An async function runs synchronously up to its first \<open>await\<close> and is resumed later by
  the event loop. The embedding follows that shape: \<open>raceStrategies\<close> computes the state
  in which the call is left when it first yields (or has already settled), and \<open>step\<close>
  gives the reaction of that state to one event of the environment: a racing promise
  settles, or the caller's abort signal fires. The settlement of a racing promise and the
  resumption of the function it wakes are one step; the microtask turns between the two
  are not modelled.

  What the module imports is a parameter of the embedding: the signature derivation
  \<open>getSignatureFromTransaction\<close>, the three factory constructors, and the signal
  factories themselves, which the source takes as fields of its config. What a factory's
  promise does later (when it settles, how it answers a cancellation) belongs to the
  environment and arrives as events.
\<close>

subsection \<open>Values, errors, settlements\<close>

type_synonym signature = string
type_synonym address = string
type_synonym nonce_value = string

datatype commitment = Processed | Confirmed | Finalized

text \<open>
  A thrown value. \<open>AbortError\<close> is the \<open>DOMException\<close> that \<open>AbortController.abort()\<close>
  installs as the reason when it is called without an argument, \<open>TypeError\<close> is what a
  property read on \<open>undefined\<close> throws, \<open>OtherError\<close> is any other thrown value.
\<close>

datatype js_error = AbortError | TypeError | OtherError string

datatype js_value = Undefined | Val string

datatype settlement = Resolved js_value | Rejected js_error

text \<open>A promise as the race sees it: still pending, or settled.\<close>

datatype promise_state = Pending | Settled settlement

subsection \<open>Transactions\<close>

text \<open>
  \<open>BaseTransaction\<close> of \<open>types.ts\<close> has \<open>instructions\<close> and \<open>version\<close>.

  Modelled from the spec: the interfaces \<open>IInstruction\<close>, \<open>IAccountMeta\<close>,
  \<open>ITransactionWithFeePayer\<close>, \<open>ITransactionWithSignatures\<close>, \<open>IDurableNonceTransaction\<close>
  and \<open>ITransactionWithBlockhashLifetime\<close> are imported by the module and their
  declarations are not among the sources. The records below have the fields the module
  reads (\<open>instructions[0].accounts[0].address\<close>, \<open>lifetimeConstraint.nonce\<close>,
  \<open>lifetimeConstraint.lastValidBlockHeight\<close>) and the fields of the specification's data
  model (a fee payer, the attached signatures). The lifetime constraint is a type
  parameter, as the two interfaces give it two shapes. The \<open>accounts\<close> of an instruction
  may be absent, as any property of a JavaScript object may.
\<close>

datatype transaction_version = Legacy | V0

record account_meta =
  address :: address

record instruction =
  accounts :: "account_meta list option"
  programAddress :: address

record 'l transaction =
  instructions :: "instruction list"
  version :: transaction_version
  feePayer :: address
  signatures :: "(address \<times> signature) list"
  lifetimeConstraint :: 'l

record nonce_lifetime =
  nonce :: nonce_value

record blockhash_lifetime =
  blockhash :: string
  lastValidBlockHeight :: nat

subsection \<open>Abort signals\<close>

text \<open>
  Two \<open>AbortSignal\<close> objects exist during one call: the caller's, and the signal of the
  \<open>AbortController\<close> the call creates. A signal is aborted exactly when it has a reason.
  A listener is either the closure \<open>handleAbort\<close> of this call or a callback of other code.
  The config a caller passes refers to the caller's signal (\<open>abortSignal config = CallerSignal\<close>);
  the config \<open>raceStrategies\<close> hands to its callback refers to the controller's.
\<close>

datatype signal_ref = CallerSignal | ControllerSignal

datatype listener = HandleAbort | Foreign nat

record abort_signal =
  reason :: "js_error option"
  listeners :: "listener list"

definition aborted :: "abort_signal \<Rightarrow> bool" where
  "aborted s = (reason s \<noteq> None)"

definition throwIfAborted :: "abort_signal \<Rightarrow> js_error + unit" where
  "throwIfAborted s = (case reason s of Some e \<Rightarrow> Inl e | None \<Rightarrow> Inr ())"

subsection \<open>Signal factories and configurations\<close>

text \<open>
  A factory takes the fields of its argument object in the order of the call site and
  either throws or returns a promise. Every invocation is recorded as a \<open>factory_call\<close>.
\<close>

type_synonym recent_signature_factory =
  "signal_ref \<Rightarrow> commitment \<Rightarrow> signature \<Rightarrow> js_error + promise_state"
type_synonym nonce_invalidation_factory =
  "signal_ref \<Rightarrow> commitment \<Rightarrow> nonce_value \<Rightarrow> address \<Rightarrow> js_error + promise_state"
type_synonym block_height_factory =
  "signal_ref \<Rightarrow> nat \<Rightarrow> js_error + promise_state"

datatype factory_call =
    RecentSignatureConfirmation signal_ref commitment signature
  | NonceInvalidation signal_ref commitment nonce_value address
  | BlockHeightExceedence signal_ref nat


text \<open>
  \<open>confirmer_config\<close> is \<open>BaseConfig\<close> without the factory field (the \<open>Omit<...>\<close> type the
  default confirmers take); \<open>base_config\<close> adds \<open>getRecentSignatureConfirmationPromise\<close>, and
  the two \<open>WaitFor...Config\<close> interfaces extend it.
\<close>

record 'l confirmer_config =
  abortSignal :: signal_ref
  commitment :: commitment
  transaction :: "'l transaction"

record 'l base_config = "'l confirmer_config" +
  getRecentSignatureConfirmationPromise :: recent_signature_factory

record durable_nonce_config = "nonce_lifetime base_config" +
  getNonceInvalidationPromise :: nonce_invalidation_factory

record recent_config = "blockhash_lifetime base_config" +
  getBlockHeightExceedencePromise :: block_height_factory

subsection \<open>The state of one call\<close>

text \<open>
  \<open>calls\<close> lists the factory invocations in order; \<open>racing\<close> is the array handed to
  \<open>Promise.race\<close>; \<open>awaiting\<close> holds while the function is suspended at its \<open>await\<close>;
  \<open>outcome\<close> is the settlement of the promise \<open>raceStrategies\<close> returned;
  \<open>finallyRuns\<close> counts the executions of the \<open>finally\<close> block.
\<close>

record race_state =
  callerSignal :: abort_signal
  controllerSignal :: abort_signal
  calls :: "factory_call list"
  racing :: "promise_state list"
  awaiting :: bool
  outcome :: "settlement option"
  finallyRuns :: nat

fun signalOf :: "race_state \<Rightarrow> signal_ref \<Rightarrow> abort_signal" where
  "signalOf w CallerSignal = callerSignal w"
| "signalOf w ControllerSignal = controllerSignal w"

definition newSignal :: abort_signal where
  "newSignal = \<lparr>reason = None, listeners = []\<rparr>"

definition startCall :: "abort_signal \<Rightarrow> race_state" where
  "startCall cs =
     \<lparr>callerSignal = cs, controllerSignal = newSignal, calls = [], racing = [],
      awaiting = False, outcome = None, finallyRuns = 0\<rparr>"

text \<open>\<open>new AbortController()\<close>: a signal that is not aborted and has no listener.\<close>

definition newAbortController :: "race_state \<Rightarrow> race_state" where
  "newAbortController w = w\<lparr>controllerSignal := newSignal\<rparr>"

definition addListener :: "listener \<Rightarrow> abort_signal \<Rightarrow> abort_signal" where
  "addListener l s = s\<lparr>listeners := listeners s @ [l]\<rparr>"

definition removeListener :: "listener \<Rightarrow> abort_signal \<Rightarrow> abort_signal" where
  "removeListener l s = s\<lparr>listeners := removeAll l (listeners s)\<rparr>"

text \<open>
  \<open>target.addEventListener('abort', l, { signal: abortController.signal })\<close>: nothing is
  added when the option's signal is already aborted; otherwise the listener is appended
  and is removed again when the option's signal aborts.
\<close>

fun addEventListener :: "signal_ref \<Rightarrow> listener \<Rightarrow> race_state \<Rightarrow> race_state" where
  "addEventListener CallerSignal l w =
     (if aborted (controllerSignal w) then w
      else w\<lparr>callerSignal := addListener l (callerSignal w)\<rparr>)"
| "addEventListener ControllerSignal l w =
     (if aborted (controllerSignal w) then w
      else w\<lparr>controllerSignal := addListener l (controllerSignal w)\<rparr>)"

text \<open>
  \<open>abortController.abort()\<close>: nothing happens when the signal is already aborted;
  otherwise the reason becomes the default \<open>AbortError\<close> and the listener that was added
  with this signal as its \<open>signal\<close> option is removed from its target. The \<open>abort\<close> event
  then reaches the listeners the factories put on the signal, which are not part of this
  module.
\<close>

definition abort :: "race_state \<Rightarrow> race_state" where
  "abort w =
     (if aborted (controllerSignal w) then w
      else w\<lparr>callerSignal := removeListener HandleAbort (callerSignal w),
             controllerSignal :=
               removeListener HandleAbort ((controllerSignal w)\<lparr>reason := Some AbortError\<rparr>)\<rparr>)"

text \<open>The closure \<open>handleAbort\<close> calls \<open>abortController.abort()\<close>; other listeners belong
  to other code and leave this state alone.\<close>

fun invokeListener :: "listener \<Rightarrow> race_state \<Rightarrow> race_state" where
  "invokeListener HandleAbort w = abort w"
| "invokeListener (Foreign n) w = w"

text \<open>The \<open>finally\<close> block, and the settlement of the promise the async function returned.\<close>

definition finallyBlock :: "race_state \<Rightarrow> race_state" where
  "finallyBlock w = (abort w)\<lparr>finallyRuns := Suc (finallyRuns w)\<rparr>"

definition settle :: "settlement \<Rightarrow> race_state \<Rightarrow> race_state" where
  "settle s w = w\<lparr>awaiting := False, outcome := Some s\<rparr>"

fun isSettled :: "promise_state \<Rightarrow> bool" where
  "isSettled Pending = False"
| "isSettled (Settled s) = True"

text \<open>
  \<open>await Promise.race(ps)\<close> inside the \<open>try\<close>: when members of the array are already
  settled, the first of them in array order decides and the function goes on to the
  \<open>finally\<close> block; otherwise the function is suspended.
\<close>

definition awaitPromiseRace :: "promise_state list \<Rightarrow> race_state \<Rightarrow> race_state" where
  "awaitPromiseRace ps w =
     (case find isSettled ps of
        Some (Settled s) \<Rightarrow> settle s (finallyBlock (w\<lparr>racing := ps\<rparr>))
      | _ \<Rightarrow> w\<lparr>racing := ps, awaiting := True\<rparr>)"

subsection \<open>Async calls and their promises\<close>

text \<open>
  A call of an async function leaves a state behind and returns a promise; the promise is
  read off the current state. \<open>awaitVoid\<close> is the async wrapper whose whole body is
  \<open>await p\<close>: it settles as \<open>p\<close> does, with the value replaced by \<open>undefined\<close>.
\<close>

record async_call =
  world :: race_state
  promise :: "race_state \<Rightarrow> settlement option"

fun discardValue :: "settlement \<Rightarrow> settlement" where
  "discardValue (Resolved v) = Resolved Undefined"
| "discardValue (Rejected e) = Rejected e"

definition awaitVoid :: "async_call \<Rightarrow> async_call" where
  "awaitVoid c = c\<lparr>promise := (\<lambda>w. map_option discardValue (promise c w))\<rparr>"

definition settled :: "async_call \<Rightarrow> settlement option" where
  "settled c = promise c (world c)"

subsection \<open>raceStrategies\<close>

text \<open>
  The statements of \<open>raceStrategies\<close> in the order of the source:
  \<open>callerAbortSignal.throwIfAborted()\<close>; the signature derivation; \<open>new AbortController()\<close>;
  the registration of \<open>handleAbort\<close> on the caller's signal; then, inside \<open>try\<close>, the
  callback on the config whose \<open>abortSignal\<close> is the controller's signal, the call of the
  signature-confirmation factory, and \<open>await Promise.race\<close> on the array that starts with
  that factory's promise; \<open>finally\<close> calls \<open>abortController.abort()\<close>. The first two
  statements can throw, and then the \<open>finally\<close> block does not run. The callback
  \<open>getSpecificStrategiesForRace\<close> returns the factory invocations it made and either the
  error it threw or the promises it built.
\<close>

definition raceStrategies ::
  "('l transaction \<Rightarrow> js_error + signature) \<Rightarrow> ('l, 'z) base_config_scheme \<Rightarrow>
   (('l, 'z) base_config_scheme \<Rightarrow> factory_call list \<times> (js_error + promise_state list)) \<Rightarrow>
   abort_signal \<Rightarrow> async_call" where
  "raceStrategies getSignatureFromTransaction config getSpecificStrategiesForRace cs =
     (let w = startCall cs;
          callerAbortSignal = abortSignal config
      in \<lparr>world =
           (case throwIfAborted (signalOf w callerAbortSignal) of
              Inl e \<Rightarrow> settle (Rejected e) w
            | Inr _ \<Rightarrow>
           (case getSignatureFromTransaction (transaction config) of
              Inl e \<Rightarrow> settle (Rejected e) w
            | Inr signature \<Rightarrow>
           (let w1 = newAbortController w;
                w2 = addEventListener callerAbortSignal HandleAbort w1
            in case getSpecificStrategiesForRace (config\<lparr>abortSignal := ControllerSignal\<rparr>) of
                 (made, r) \<Rightarrow>
           (let w3 = w2\<lparr>calls := calls w2 @ made\<rparr>
            in case r of
                 Inl e \<Rightarrow> settle (Rejected e) (finallyBlock w3)
               | Inr specificStrategies \<Rightarrow>
           (let w4 = w3\<lparr>calls := calls w3 @
                        [RecentSignatureConfirmation ControllerSignal (commitment config) signature]\<rparr>
            in case getRecentSignatureConfirmationPromise config
                      ControllerSignal (commitment config) signature of
                 Inl e \<Rightarrow> settle (Rejected e) (finallyBlock w4)
               | Inr p \<Rightarrow> awaitPromiseRace (p # specificStrategies) w4))))),
          promise = outcome\<rparr>)"

subsection \<open>Events\<close>

text \<open>
  \<open>CallerAborts r\<close>: the owner of the caller's signal aborts it with reason \<open>r\<close>; the
  listeners registered at that moment are invoked in order. \<open>Settles i s\<close>: the racing
  promise at index \<open>i\<close> settles with \<open>s\<close>; when the function is suspended on the race this
  resumes it, so the \<open>finally\<close> block runs and the returned promise settles with \<open>s\<close>.
  A promise settles once, so a second settlement of the same promise changes nothing.
\<close>

datatype event = CallerAborts js_error | Settles nat settlement

fun step :: "event \<Rightarrow> race_state \<Rightarrow> race_state" where
  "step (CallerAborts r) w =
     (if aborted (callerSignal w) then w
      else fold invokeListener (listeners (callerSignal w))
             (w\<lparr>callerSignal := (callerSignal w)\<lparr>reason := Some r\<rparr>\<rparr>))"
| "step (Settles i s) w =
     (if i < length (racing w) \<and> racing w ! i = Pending then
        (let w' = w\<lparr>racing := (racing w)[i := Settled s]\<rparr>
         in if awaiting w' then settle s (finallyBlock w') else w')
      else w)"

fun run :: "event list \<Rightarrow> race_state \<Rightarrow> race_state" where
  "run [] w = w"
| "run (e # es) w = run es (step e w)"

definition after :: "event list \<Rightarrow> async_call \<Rightarrow> async_call" where
  "after es c = c\<lparr>world := run es (world c)\<rparr>"

subsection \<open>The two waiters\<close>

text \<open>
  \<open>transaction.instructions[0].accounts[0].address\<close>: each of the three reads throws a
  \<open>TypeError\<close> when the value it reads from is \<open>undefined\<close>.
\<close>

definition nonceAccountAddress :: "'l transaction \<Rightarrow> js_error + address" where
  "nonceAccountAddress tx =
     (case instructions tx of
        [] \<Rightarrow> Inl TypeError
      | i # _ \<Rightarrow>
          (case accounts i of
             None \<Rightarrow> Inl TypeError
           | Some [] \<Rightarrow> Inl TypeError
           | Some (a # _) \<Rightarrow> Inr (address a)))"

definition getSpecificStrategiesForRace_durableNonce ::
  "durable_nonce_config \<Rightarrow> factory_call list \<times> (js_error + promise_state list)" where
  "getSpecificStrategiesForRace_durableNonce config =
     (let currentNonceValue = nonce (lifetimeConstraint (transaction config))
      in case nonceAccountAddress (transaction config) of
           Inl e \<Rightarrow> ([], Inl e)
         | Inr a \<Rightarrow>
             ([NonceInvalidation (abortSignal config) (commitment config) currentNonceValue a],
              case getNonceInvalidationPromise config
                     (abortSignal config) (commitment config) currentNonceValue a of
                Inl e \<Rightarrow> Inl e
              | Inr p \<Rightarrow> Inr [p]))"

definition waitForDurableNonceTransactionConfirmation ::
  "(nonce_lifetime transaction \<Rightarrow> js_error + signature) \<Rightarrow> durable_nonce_config \<Rightarrow>
   abort_signal \<Rightarrow> async_call" where
  "waitForDurableNonceTransactionConfirmation getSignatureFromTransaction config cs =
     awaitVoid (raceStrategies getSignatureFromTransaction config
                  getSpecificStrategiesForRace_durableNonce cs)"

definition getSpecificStrategiesForRace_recent ::
  "recent_config \<Rightarrow> factory_call list \<times> (js_error + promise_state list)" where
  "getSpecificStrategiesForRace_recent config =
     (let height = lastValidBlockHeight (lifetimeConstraint (transaction config))
      in ([BlockHeightExceedence (abortSignal config) height],
          case getBlockHeightExceedencePromise config (abortSignal config) height of
            Inl e \<Rightarrow> Inl e
          | Inr p \<Rightarrow> Inr [p]))"

definition waitForRecentTransactionConfirmation ::
  "(blockhash_lifetime transaction \<Rightarrow> js_error + signature) \<Rightarrow> recent_config \<Rightarrow>
   abort_signal \<Rightarrow> async_call" where
  "waitForRecentTransactionConfirmation getSignatureFromTransaction config cs =
     awaitVoid (raceStrategies getSignatureFromTransaction config
                  getSpecificStrategiesForRace_recent cs)"

subsection \<open>The default confirmers\<close>

text \<open>
  The three factory constructors are imported from sibling modules and are parameters
  here. Calling a constructor is an effect: it builds a factory object. A constructor
  therefore takes, besides its endpoints, the state of the environment it acts on, and
  returns the factory together with the state it leaves. That state is threaded through
  the creation of a confirmer, in the order of the two constructor calls of the source,
  and through every call of the async function the confirmer is, whose body calls no
  constructor: it awaits the waiter on the caller's fields and the two factories built at
  creation. \<open>construction\<close> is what a constructor that keeps a log of its calls records.
\<close>

datatype ('r, 's) construction =
    NonceInvalidationPromiseFactory 'r 's
  | RecentSignatureConfirmationPromiseFactory 'r 's
  | BlockHeightExceedencePromiseFactory 's

definition createDefaultDurableNonceTransactionConfirmer ::
  "(nonce_lifetime transaction \<Rightarrow> js_error + signature) \<Rightarrow>
   ('r \<Rightarrow> 's \<Rightarrow> 'st \<Rightarrow> nonce_invalidation_factory \<times> 'st) \<Rightarrow>
   ('r \<Rightarrow> 's \<Rightarrow> 'st \<Rightarrow> recent_signature_factory \<times> 'st) \<Rightarrow> 'r \<Rightarrow> 's \<Rightarrow> 'st \<Rightarrow>
   (nonce_lifetime confirmer_config \<Rightarrow> abort_signal \<Rightarrow> 'st \<Rightarrow> async_call \<times> 'st) \<times> 'st" where
  "createDefaultDurableNonceTransactionConfirmer getSignatureFromTransaction
     createNonceInvalidationPromiseFactory createRecentSignatureConfirmationPromiseFactory
     rpc rpcSubscriptions st =
     (case createNonceInvalidationPromiseFactory rpc rpcSubscriptions st of
        (nonceInvalidationPromise, st1) \<Rightarrow>
     (case createRecentSignatureConfirmationPromiseFactory rpc rpcSubscriptions st1 of
        (recentSignatureConfirmationPromise, st2) \<Rightarrow>
          (\<lambda>config cs st'.
             (awaitVoid (waitForDurableNonceTransactionConfirmation getSignatureFromTransaction
                \<lparr>abortSignal = abortSignal config, commitment = commitment config,
                 transaction = transaction config,
                 getRecentSignatureConfirmationPromise = recentSignatureConfirmationPromise,
                 getNonceInvalidationPromise = nonceInvalidationPromise\<rparr> cs),
              st'),
           st2)))"

definition createDefaultRecentTransactionConfirmer ::
  "(blockhash_lifetime transaction \<Rightarrow> js_error + signature) \<Rightarrow>
   ('s \<Rightarrow> 'st \<Rightarrow> block_height_factory \<times> 'st) \<Rightarrow>
   ('r \<Rightarrow> 's \<Rightarrow> 'st \<Rightarrow> recent_signature_factory \<times> 'st) \<Rightarrow> 'r \<Rightarrow> 's \<Rightarrow> 'st \<Rightarrow>
   (blockhash_lifetime confirmer_config \<Rightarrow> abort_signal \<Rightarrow> 'st \<Rightarrow> async_call \<times> 'st) \<times> 'st" where
  "createDefaultRecentTransactionConfirmer getSignatureFromTransaction
     createBlockHeightExceedencePromiseFactory createRecentSignatureConfirmationPromiseFactory
     rpc rpcSubscriptions st =
     (case createBlockHeightExceedencePromiseFactory rpcSubscriptions st of
        (blockHeightExceedencePromise, st1) \<Rightarrow>
     (case createRecentSignatureConfirmationPromiseFactory rpc rpcSubscriptions st1 of
        (recentSignatureConfirmationPromise, st2) \<Rightarrow>
          (\<lambda>config cs st'.
             (awaitVoid (waitForRecentTransactionConfirmation getSignatureFromTransaction
                \<lparr>abortSignal = abortSignal config, commitment = commitment config,
                 transaction = transaction config,
                 getRecentSignatureConfirmationPromise = recentSignatureConfirmationPromise,
                 getBlockHeightExceedencePromise = blockHeightExceedencePromise\<rparr> cs),
              st'),
           st2)))"

subsection \<open>Concrete scenarios\<close>

text \<open>
  The inputs on which the statements below are evaluated. The signature derivation looks
  the fee payer's signature up and throws when there is none. The factories return a
  pending promise. \<open>durableNonceScenario\<close> is a transaction built against the nonce
  \<open>N1\<close>, whose first instruction has the nonce account first; \<open>recentScenario\<close> is a
  transaction with \<open>lastValidBlockHeight = 100\<close>.
\<close>

definition feePayerSignature :: "'l transaction \<Rightarrow> js_error + signature" where
  "feePayerSignature tx =
     (case map_of (signatures tx) (feePayer tx) of
        None \<Rightarrow> Inl (OtherError ''missing fee payer signature'')
      | Some s \<Rightarrow> Inr s)"

definition pendingSignatureFactory :: recent_signature_factory where
  "pendingSignatureFactory = (\<lambda>sig c s. Inr Pending)"

definition pendingNonceFactory :: nonce_invalidation_factory where
  "pendingNonceFactory = (\<lambda>sig c n a. Inr Pending)"

definition pendingBlockHeightFactory :: block_height_factory where
  "pendingBlockHeightFactory = (\<lambda>sig h. Inr Pending)"

definition durableNonceTransaction :: "nonce_lifetime transaction" where
  "durableNonceTransaction =
     \<lparr>instructions =
        [\<lparr>accounts = Some [\<lparr>address = ''NonceAccount''\<rparr>, \<lparr>address = ''Authority''\<rparr>],
          programAddress = ''System''\<rparr>],
      version = V0, feePayer = ''Payer'', signatures = [(''Payer'', ''Sig1'')],
      lifetimeConstraint = \<lparr>nonce = ''N1''\<rparr>\<rparr>"

definition durableNonceScenario :: durable_nonce_config where
  "durableNonceScenario =
     \<lparr>abortSignal = CallerSignal, commitment = Confirmed,
      transaction = durableNonceTransaction,
      getRecentSignatureConfirmationPromise = pendingSignatureFactory,
      getNonceInvalidationPromise = pendingNonceFactory\<rparr>"

definition recentTransaction :: "blockhash_lifetime transaction" where
  "recentTransaction =
     \<lparr>instructions = [], version = Legacy, feePayer = ''Payer'',
      signatures = [(''Payer'', ''Sig2'')],
      lifetimeConstraint = \<lparr>blockhash = ''H'', lastValidBlockHeight = 100\<rparr>\<rparr>"

definition recentScenario :: recent_config where
  "recentScenario =
     \<lparr>abortSignal = CallerSignal, commitment = Finalized,
      transaction = recentTransaction,
      getRecentSignatureConfirmationPromise = pendingSignatureFactory,
      getBlockHeightExceedencePromise = pendingBlockHeightFactory\<rparr>"

text \<open>The durable-nonce scenario with a transaction that has no instruction, and the
  same without the fee payer's signature.\<close>

definition noInstructionScenario :: durable_nonce_config where
  "noInstructionScenario =
     durableNonceScenario\<lparr>transaction := durableNonceTransaction\<lparr>instructions := []\<rparr>\<rparr>"

definition unsignedScenario :: durable_nonce_config where
  "unsignedScenario =
     durableNonceScenario\<lparr>transaction :=
       durableNonceTransaction\<lparr>instructions := [], signatures := []\<rparr>\<rparr>"

text \<open>The durable-nonce scenario with a nonce-invalidation factory whose promise is
  already rejected when it is returned.\<close>

definition staleNonceScenario :: durable_nonce_config where
  "staleNonceScenario =
     durableNonceScenario\<lparr>getNonceInvalidationPromise :=
       (\<lambda>sig c n a. Inr (Settled (Rejected (OtherError ''nonce already advanced''))))\<rparr>"

text \<open>The durable-nonce scenario in which both factories return a promise that is already
  settled: the signature is confirmed and the nonce has advanced.\<close>

definition tieScenario :: durable_nonce_config where
  "tieScenario =
     durableNonceScenario\<lparr>
       getRecentSignatureConfirmationPromise :=
         (\<lambda>sig c s. Inr (Settled (Resolved Undefined))),
       getNonceInvalidationPromise :=
         (\<lambda>sig c n a. Inr (Settled (Rejected (OtherError ''nonce already advanced''))))\<rparr>"

text \<open>
  Constructors that append a record of the call to the state they are given, which is
  a log of constructor calls, and return the factory with the pending promise; and the
  fields a caller passes to a default confirmer in the two scenarios.
\<close>

definition loggedNonceConstructor ::
  "'r \<Rightarrow> 's \<Rightarrow> ('r, 's) construction list \<Rightarrow>
   nonce_invalidation_factory \<times> ('r, 's) construction list" where
  "loggedNonceConstructor rpc rpcSubscriptions made =
     (pendingNonceFactory, made @ [NonceInvalidationPromiseFactory rpc rpcSubscriptions])"

definition loggedSignatureConstructor ::
  "'r \<Rightarrow> 's \<Rightarrow> ('r, 's) construction list \<Rightarrow>
   recent_signature_factory \<times> ('r, 's) construction list" where
  "loggedSignatureConstructor rpc rpcSubscriptions made =
     (pendingSignatureFactory,
      made @ [RecentSignatureConfirmationPromiseFactory rpc rpcSubscriptions])"

definition loggedBlockHeightConstructor ::
  "'s \<Rightarrow> ('r, 's) construction list \<Rightarrow> block_height_factory \<times> ('r, 's) construction list" where
  "loggedBlockHeightConstructor rpcSubscriptions made =
     (pendingBlockHeightFactory, made @ [BlockHeightExceedencePromiseFactory rpcSubscriptions])"

definition durableNonceCallerConfig :: "nonce_lifetime confirmer_config" where
  "durableNonceCallerConfig =
     \<lparr>abortSignal = CallerSignal, commitment = Confirmed,
      transaction = durableNonceTransaction\<rparr>"

definition recentCallerConfig :: "blockhash_lifetime confirmer_config" where
  "recentCallerConfig =
     \<lparr>abortSignal = CallerSignal, commitment = Finalized, transaction = recentTransaction\<rparr>"

text \<open>A caller's signal with one listener of the caller's own, not aborted.\<close>

definition liveSignal :: abort_signal where
  "liveSignal = \<lparr>reason = None, listeners = [Foreign 7]\<rparr>"

text \<open>The same signal after the caller aborted it with a reason of their own.\<close>

definition firedSignal :: abort_signal where
  "firedSignal = \<lparr>reason = Some (OtherError ''cancelled by user''), listeners = [Foreign 7]\<rparr>"

subsection \<open>Invariants of a call\<close>

text \<open>Reachable states are described by \<open>quiet\<close>: while the function is suspended on the
  race, nothing has settled and the \<open>finally\<close> block has not run.\<close>

definition quiet :: "race_state \<Rightarrow> bool" where
  "quiet w = (awaiting w \<longrightarrow>
      outcome w = None \<and> finallyRuns w = 0 \<and> (\<forall>p \<in> set (racing w). p = Pending))"

text \<open>After the \<open>try\<close> block has been entered, a call that is no longer suspended has
  settled, has run its \<open>finally\<close> block once, and has aborted its controller.\<close>

definition entered :: "race_state \<Rightarrow> bool" where
  "entered w = (quiet w \<and>
     (\<not> awaiting w \<longrightarrow> outcome w \<noteq> None \<and> finallyRuns w = 1 \<and> aborted (controllerSignal w)))"

text \<open>The state in which the \<open>try\<close> block is entered.\<close>

definition tryEntry :: "abort_signal \<Rightarrow> race_state" where
  "tryEntry cs = addEventListener CallerSignal HandleAbort (newAbortController (startCall cs))"

text \<open>
  \<open>released cs\<close> holds of every state of a call made on the caller's signal \<open>cs\<close>
  (on which \<open>handleAbort\<close>, a closure the call creates, cannot be listening beforehand):
  the listeners of other code are as they were, an aborted controller has taken
  \<open>handleAbort\<close> off the caller's signal, and so has a settled call.
\<close>

definition released :: "abort_signal \<Rightarrow> race_state \<Rightarrow> bool" where
  "released cs w =
     (removeAll HandleAbort (listeners (callerSignal w)) = removeAll HandleAbort (listeners cs) \<and>
      (aborted (controllerSignal w) \<longrightarrow> HandleAbort \<notin> set (listeners (callerSignal w))) \<and>
      (outcome w \<noteq> None \<longrightarrow> HandleAbort \<notin> set (listeners (callerSignal w))))"

subsection \<open>Basic facts about one step\<close>

lemma calls_step: "calls (step e w) = calls w"
proof (cases e)
  case (CallerAborts r)
  have "calls (fold invokeListener ls v) = calls v" for ls v
  proof (induction ls arbitrary: v)
    case Nil
    show ?case by simp
  next
    case (Cons l ls)
    have "calls (invokeListener l v) = calls v"
      by (cases l) (simp_all add: abort_def)
    with Cons show ?case by simp
  qed
  with CallerAborts show ?thesis by simp
next
  case (Settles i s)
  then show ?thesis
    by (simp add: Let_def settle_def finallyBlock_def abort_def)
qed

lemma abort_fields [simp]:
  "calls (abort w) = calls w" "racing (abort w) = racing w" "awaiting (abort w) = awaiting w"
  "outcome (abort w) = outcome w" "finallyRuns (abort w) = finallyRuns w"
  by (simp_all add: abort_def)

lemma aborted_abort [simp]: "aborted (controllerSignal (abort w))"
  by (simp add: abort_def aborted_def removeListener_def)

lemma abort_when_aborted: "aborted (controllerSignal w) \<Longrightarrow> abort w = w"
  by (simp add: abort_def)

lemma abort_idem [simp]: "abort (abort w) = abort w"
  by (simp add: abort_when_aborted)

lemma reason_abort:
  "reason (controllerSignal (abort w)) =
     (if aborted (controllerSignal w) then reason (controllerSignal w) else Some AbortError)"
  by (simp add: abort_def removeListener_def)

lemma caller_reason_abort [simp]: "reason (callerSignal (abort w)) = reason (callerSignal w)"
  by (simp add: abort_def removeListener_def)

lemma caller_listeners_abort:
  "listeners (callerSignal (abort w)) =
     (if aborted (controllerSignal w) then listeners (callerSignal w)
      else removeAll HandleAbort (listeners (callerSignal w)))"
  by (simp add: abort_def removeListener_def)

lemma fold_invokeListener:
  "fold invokeListener ls w = (if HandleAbort \<in> set ls then abort w else w)"
proof (induction ls arbitrary: w)
  case Nil
  show ?case by simp
next
  case (Cons l ls)
  show ?case
  proof (cases l)
    case HandleAbort
    with Cons show ?thesis by simp
  next
    case (Foreign n)
    with Cons show ?thesis by simp
  qed
qed

lemma step_CallerAborts:
  "step (CallerAborts r) w =
     (if aborted (callerSignal w) then w
      else if HandleAbort \<in> set (listeners (callerSignal w))
           then abort (w\<lparr>callerSignal := (callerSignal w)\<lparr>reason := Some r\<rparr>\<rparr>)
           else w\<lparr>callerSignal := (callerSignal w)\<lparr>reason := Some r\<rparr>\<rparr>)"
  by (simp add: fold_invokeListener)

lemma step_Settles_awaiting:
  assumes "awaiting w" "i < length (racing w)" "racing w ! i = Pending"
  shows "step (Settles i s) w =
           settle s (finallyBlock (w\<lparr>racing := (racing w)[i := Settled s]\<rparr>))"
  using assms by (simp add: Let_def)

lemma step_not_awaiting:
  assumes "\<not> awaiting w"
  shows "\<not> awaiting (step e w) \<and> outcome (step e w) = outcome w \<and>
         finallyRuns (step e w) = finallyRuns w"
  using assms by (cases e) (simp_all add: step_CallerAborts Let_def del: step.simps(1))

lemma run_not_awaiting:
  "\<not> awaiting w \<Longrightarrow>
     \<not> awaiting (run es w) \<and> outcome (run es w) = outcome w \<and>
     finallyRuns (run es w) = finallyRuns w"
proof (induction es arbitrary: w)
  case Nil
  then show ?case by simp
next
  case (Cons e es)
  from step_not_awaiting [OF Cons.prems, of e] Cons.IH [of "step e w"]
  show ?case by simp
qed

lemma run_append: "run (es @ fs) w = run fs (run es w)"
  by (induction es arbitrary: w) simp_all

lemma controller_step_aborted:
  "aborted (controllerSignal w) \<Longrightarrow> controllerSignal (step e w) = controllerSignal w"
  by (cases e) (simp_all add: step_CallerAborts Let_def settle_def finallyBlock_def abort_def del: step.simps(1))

lemma controller_run_aborted:
  "aborted (controllerSignal w) \<Longrightarrow> controllerSignal (run es w) = controllerSignal w"
proof (induction es arbitrary: w)
  case Nil
  show ?case by simp
next
  case (Cons e es)
  from Cons.prems have "controllerSignal (step e w) = controllerSignal w"
    by (rule controller_step_aborted)
  with Cons.prems Cons.IH [of "step e w"] show ?case by simp
qed

lemma calls_run: "calls (run es w) = calls w"
  by (induction es arbitrary: w) (simp_all add: calls_step)

lemma quiet_step: "quiet w \<Longrightarrow> quiet (step e w)"
proof (cases e)
  case (CallerAborts r)
  assume "quiet w"
  with CallerAborts show ?thesis
    by (simp add: step_CallerAborts quiet_def del: step.simps(1))
next
  case (Settles i s)
  assume "quiet w"
  with Settles show ?thesis
    by (simp add: quiet_def Let_def settle_def finallyBlock_def)
qed

lemma quiet_run: "quiet w \<Longrightarrow> quiet (run es w)"
  by (induction es arbitrary: w) (simp_all add: quiet_step)

lemma find_isSettled_None: "find isSettled ps = None \<Longrightarrow> \<forall>p \<in> set ps. p = Pending"
proof (induction ps)
  case Nil
  show ?case by simp
next
  case (Cons p ps)
  then show ?case by (cases p) (simp_all split: if_splits)
qed

lemma find_isSettled_Some: "find isSettled ps = Some p \<Longrightarrow> p \<noteq> Pending"
proof (induction ps)
  case Nil
  then show ?case by simp
next
  case (Cons q ps)
  then show ?case by (cases q) (auto split: if_splits)
qed

lemma quiet_awaitPromiseRace:
  "outcome w = None \<Longrightarrow> finallyRuns w = 0 \<Longrightarrow> quiet (awaitPromiseRace ps w)"
  by (auto simp: awaitPromiseRace_def quiet_def settle_def finallyBlock_def
        split: option.splits promise_state.splits dest: find_isSettled_None find_isSettled_Some)

lemma quiet_settle [simp]: "quiet (settle s w)"
  by (simp add: quiet_def settle_def)

lemma addEventListener_fields [simp]:
  "calls (addEventListener t l w) = calls w" "racing (addEventListener t l w) = racing w"
  "awaiting (addEventListener t l w) = awaiting w" "outcome (addEventListener t l w) = outcome w"
  "finallyRuns (addEventListener t l w) = finallyRuns w"
  by (cases t; simp)+

lemma quiet_raceStrategies: "quiet (world (raceStrategies g config strategies cs))"
  by (simp add: raceStrategies_def Let_def startCall_def newAbortController_def
        quiet_awaitPromiseRace
        split: sum.splits prod.splits signal_ref.splits)

lemmas scenario_defs =
  durableNonceScenario_def durableNonceTransaction_def recentScenario_def recentTransaction_def
  feePayerSignature_def pendingSignatureFactory_def pendingNonceFactory_def
  pendingBlockHeightFactory_def liveSignal_def firedSignal_def

lemmas call_defs =
  raceStrategies_def waitForDurableNonceTransactionConfirmation_def
  waitForRecentTransactionConfirmation_def getSpecificStrategiesForRace_durableNonce_def
  getSpecificStrategiesForRace_recent_def nonceAccountAddress_def awaitVoid_def
  startCall_def newSignal_def newAbortController_def throwIfAborted_def aborted_def
  addListener_def removeListener_def awaitPromiseRace_def settle_def finallyBlock_def
  abort_def after_def settled_def

lemma world_awaitVoid [simp]: "world (awaitVoid c) = world c"
  by (simp add: awaitVoid_def)

lemma world_after [simp]: "world (after es c) = run es (world c)"
  by (simp add: after_def)

lemma promise_after [simp]: "promise (after es c) = promise c"
  by (simp add: after_def)

lemma promise_raceStrategies [simp]: "promise (raceStrategies g config strategies cs) = outcome"
  by (simp add: raceStrategies_def Let_def)

lemma settled_awaitVoid:
  "settled (after es (awaitVoid c)) = map_option discardValue (settled (after es c))"
  by (simp add: settled_def awaitVoid_def after_def)

lemma settled_race:
  "settled (after es (raceStrategies g config strategies cs))
     = outcome (run es (world (raceStrategies g config strategies cs)))"
  by (simp add: settled_def)

lemma settled_durable:
  "settled (after es (waitForDurableNonceTransactionConfirmation g config cs))
     = map_option discardValue
         (outcome (run es (world (raceStrategies g config
            getSpecificStrategiesForRace_durableNonce cs))))"
  by (simp add: waitForDurableNonceTransactionConfirmation_def settled_awaitVoid settled_race)

lemma settled_recent:
  "settled (after es (waitForRecentTransactionConfirmation g config cs))
     = map_option discardValue
         (outcome (run es (world (raceStrategies g config
            getSpecificStrategiesForRace_recent cs))))"
  by (simp add: waitForRecentTransactionConfirmation_def settled_awaitVoid settled_race)

lemma world_durable:
  "world (waitForDurableNonceTransactionConfirmation g config cs) =
   world (raceStrategies g config getSpecificStrategiesForRace_durableNonce cs)"
  by (simp add: waitForDurableNonceTransactionConfirmation_def)

lemma world_recent:
  "world (waitForRecentTransactionConfirmation g config cs) =
   world (raceStrategies g config getSpecificStrategiesForRace_recent cs)"
  by (simp add: waitForRecentTransactionConfirmation_def)

subsection \<open>The first settlement of a racing promise\<close>

text \<open>While the function is suspended on the race every racing promise is pending
  (\<open>quiet\<close>), so the settlement of any of them is the first one.\<close>

lemma settles_first:
  assumes q: "quiet w" and a: "awaiting w" and i: "i < length (racing w)"
  shows "outcome (run (Settles i s # post) w) = Some s \<and>
         aborted (controllerSignal (run (Settles i s # post) w)) \<and>
         finallyRuns (run (Settles i s # post) w) = 1 \<and>
         \<not> awaiting (run (Settles i s # post) w)"
proof -
  from q a i have p: "racing w ! i = Pending" and f: "finallyRuns w = 0"
    by (simp_all add: quiet_def)
  let ?w = "step (Settles i s) w"
  from a i p have w: "?w = settle s (finallyBlock (w\<lparr>racing := (racing w)[i := Settled s]\<rparr>))"
    by (rule step_Settles_awaiting)
  have 1: "\<not> awaiting ?w" and 2: "outcome ?w = Some s" and 3: "finallyRuns ?w = 1"
    and 4: "aborted (controllerSignal ?w)"
    using f unfolding w by (simp_all add: settle_def finallyBlock_def)
  from run_not_awaiting [OF 1, of post] controller_run_aborted [OF 4, of post] 2 3 4
  show ?thesis by simp
qed


text \<open>The two scenarios, evaluated up to the first \<open>await\<close>.\<close>

lemma durable_start:
  "world (raceStrategies feePayerSignature durableNonceScenario
     getSpecificStrategiesForRace_durableNonce liveSignal) =
   \<lparr>callerSignal = \<lparr>reason = None, listeners = [Foreign 7, HandleAbort]\<rparr>,
    controllerSignal = \<lparr>reason = None, listeners = []\<rparr>,
    calls = [NonceInvalidation ControllerSignal Confirmed ''N1'' ''NonceAccount'',
             RecentSignatureConfirmation ControllerSignal Confirmed ''Sig1''],
    racing = [Pending, Pending], awaiting = True, outcome = None, finallyRuns = 0\<rparr>"
  by (simp add: call_defs scenario_defs)

lemma recent_start:
  "world (raceStrategies feePayerSignature recentScenario
     getSpecificStrategiesForRace_recent liveSignal) =
   \<lparr>callerSignal = \<lparr>reason = None, listeners = [Foreign 7, HandleAbort]\<rparr>,
    controllerSignal = \<lparr>reason = None, listeners = []\<rparr>,
    calls = [BlockHeightExceedence ControllerSignal 100,
             RecentSignatureConfirmation ControllerSignal Finalized ''Sig2''],
    racing = [Pending, Pending], awaiting = True, outcome = None, finallyRuns = 0\<rparr>"
  by (simp add: call_defs scenario_defs)


subsection \<open>A caller's signal that is already aborted\<close>

lemma step_idle:
  "aborted (callerSignal w) \<Longrightarrow> racing w = [] \<Longrightarrow> step e w = w"
  by (cases e) simp_all

lemma run_idle:
  "aborted (callerSignal w) \<Longrightarrow> racing w = [] \<Longrightarrow> run es w = w"
  by (induction es) (simp_all add: step_idle)

lemma raceStrategies_aborted:
  assumes "abortSignal config = CallerSignal" and "reason cs = Some r"
  shows "world (raceStrategies g config strategies cs) = settle (Rejected r) (startCall cs)"
  using assms by (simp add: raceStrategies_def Let_def startCall_def throwIfAborted_def)

lemma early_abort_run:
  assumes "abortSignal config = CallerSignal" and "reason cs = Some r"
  shows "run es (world (raceStrategies g config strategies cs)) = settle (Rejected r) (startCall cs)"
proof -
  have "aborted (callerSignal (settle (Rejected r) (startCall cs)))"
    using assms(2) by (simp add: settle_def startCall_def aborted_def)
  moreover have "racing (settle (Rejected r) (startCall cs)) = []"
    by (simp add: settle_def startCall_def)
  ultimately show ?thesis
    by (simp add: raceStrategies_aborted [OF assms] run_idle)
qed

text \<open>
  Claim C3. When the caller's signal is already aborted with reason \<open>r\<close> at the time of
  the call, \<open>raceStrategies\<close> and both public waiters are rejected with \<open>r\<close> at once
  (\<open>es = []\<close>) and for good, and no signal factory is invoked, then or later.
\<close>

theorem early_abort:
  assumes "reason cs = Some r"
  shows "(abortSignal config = CallerSignal \<longrightarrow>
            settled (after es (raceStrategies g config strategies cs)) = Some (Rejected r) \<and>
            calls (world (after es (raceStrategies g config strategies cs))) = []) \<and>
         (abortSignal dconfig = CallerSignal \<longrightarrow>
            settled (after es (waitForDurableNonceTransactionConfirmation gd dconfig cs))
              = Some (Rejected r) \<and>
            calls (world (after es (waitForDurableNonceTransactionConfirmation gd dconfig cs))) = []) \<and>
         (abortSignal rconfig = CallerSignal \<longrightarrow>
            settled (after es (waitForRecentTransactionConfirmation gr rconfig cs))
              = Some (Rejected r) \<and>
            calls (world (after es (waitForRecentTransactionConfirmation gr rconfig cs))) = [])"
proof (intro conjI impI)
  assume c: "abortSignal config = CallerSignal"
  note w = early_abort_run [OF c assms, of es g strategies]
  show "settled (after es (raceStrategies g config strategies cs)) = Some (Rejected r)"
    by (simp add: settled_def w) (simp add: settle_def)
  show "calls (world (after es (raceStrategies g config strategies cs))) = []"
    by (simp add: w) (simp add: settle_def startCall_def)
next
  assume c: "abortSignal dconfig = CallerSignal"
  note w = early_abort_run [OF c assms, of es gd getSpecificStrategiesForRace_durableNonce]
  show "settled (after es (waitForDurableNonceTransactionConfirmation gd dconfig cs))
          = Some (Rejected r)"
    by (simp add: settled_def world_durable w) (simp add: waitForDurableNonceTransactionConfirmation_def awaitVoid_def settle_def)
  show "calls (world (after es (waitForDurableNonceTransactionConfirmation gd dconfig cs))) = []"
    by (simp add: world_durable w) (simp add: settle_def startCall_def)
next
  assume c: "abortSignal rconfig = CallerSignal"
  note w = early_abort_run [OF c assms, of es gr getSpecificStrategiesForRace_recent]
  show "settled (after es (waitForRecentTransactionConfirmation gr rconfig cs))
          = Some (Rejected r)"
    by (simp add: settled_def world_recent w) (simp add: waitForRecentTransactionConfirmation_def awaitVoid_def settle_def)
  show "calls (world (after es (waitForRecentTransactionConfirmation gr rconfig cs))) = []"
    by (simp add: world_recent w) (simp add: settle_def startCall_def)
qed

theorem early_abort_witness:
  "reason firedSignal = Some (OtherError ''cancelled by user'') \<and>
   abortSignal recentScenario = CallerSignal \<and>
   settled (after [Settles 0 (Resolved Undefined)]
     (raceStrategies feePayerSignature recentScenario getSpecificStrategiesForRace_recent firedSignal))
       = Some (Rejected (OtherError ''cancelled by user'')) \<and>
   calls (world (after [Settles 0 (Resolved Undefined)]
     (raceStrategies feePayerSignature recentScenario getSpecificStrategiesForRace_recent firedSignal))) = [] \<and>
   abortSignal durableNonceScenario = CallerSignal \<and>
   settled (after [Settles 0 (Resolved Undefined)]
     (waitForDurableNonceTransactionConfirmation feePayerSignature durableNonceScenario firedSignal))
       = Some (Rejected (OtherError ''cancelled by user'')) \<and>
   calls (world (after [Settles 0 (Resolved Undefined)]
     (waitForDurableNonceTransactionConfirmation feePayerSignature durableNonceScenario firedSignal))) = [] \<and>
   settled (after [Settles 0 (Resolved Undefined)]
     (waitForRecentTransactionConfirmation feePayerSignature recentScenario firedSignal))
       = Some (Rejected (OtherError ''cancelled by user'')) \<and>
   calls (world (after [Settles 0 (Resolved Undefined)]
     (waitForRecentTransactionConfirmation feePayerSignature recentScenario firedSignal))) = []"
proof -
  have h: "reason firedSignal = Some (OtherError ''cancelled by user'')"
    by (simp add: firedSignal_def)
  have d: "abortSignal durableNonceScenario = CallerSignal"
    by (simp add: durableNonceScenario_def)
  have r: "abortSignal recentScenario = CallerSignal"
    by (simp add: recentScenario_def)
  from early_abort [OF h, where es = "[Settles 0 (Resolved Undefined)]"
      and config = recentScenario and g = feePayerSignature
      and strategies = getSpecificStrategiesForRace_recent
      and dconfig = durableNonceScenario and gd = feePayerSignature
      and rconfig = recentScenario and gr = feePayerSignature] h d r
  show ?thesis by simp
qed


subsection \<open>Cleanup on every exit from the try block\<close>


lemma entered_step:
  assumes "entered w"
  shows "entered (step e w)"
proof (cases e)
  case (CallerAborts r)
  from assms have q: "quiet (step e w)" by (simp add: entered_def quiet_step)
  from assms CallerAborts have
    "\<not> awaiting (step e w) \<longrightarrow>
       outcome (step e w) \<noteq> None \<and> finallyRuns (step e w) = 1 \<and>
       aborted (controllerSignal (step e w))"
    by (simp add: entered_def step_CallerAborts del: step.simps(1))
  with q show ?thesis by (simp add: entered_def)
next
  case (Settles i s)
  from assms have q: "quiet (step e w)" by (simp add: entered_def quiet_step)
  show ?thesis
  proof (cases "awaiting w")
    case False
    from step_not_awaiting [OF False, of e] controller_step_aborted [of w e] assms False
    have "\<not> awaiting (step e w) \<and> outcome (step e w) \<noteq> None \<and>
          finallyRuns (step e w) = 1 \<and> aborted (controllerSignal (step e w))"
      by (simp add: entered_def)
    with q show ?thesis by (simp add: entered_def)
  next
    case True
    show ?thesis
    proof (cases "i < length (racing w) \<and> racing w ! i = Pending")
      case False
      with Settles have "step e w = w" by auto
      with assms show ?thesis by simp
    next
      case valid: True
      with True have w: "step (Settles i s) w =
          settle s (finallyBlock (w\<lparr>racing := (racing w)[i := Settled s]\<rparr>))"
        by (simp add: step_Settles_awaiting)
      from assms True have "finallyRuns w = 0" by (simp add: entered_def quiet_def)
      then have "outcome (step e w) \<noteq> None \<and> finallyRuns (step e w) = 1 \<and>
          aborted (controllerSignal (step e w))"
        unfolding Settles w by (simp add: settle_def finallyBlock_def)
      with q show ?thesis by (simp add: entered_def)
    qed
  qed
qed

lemma entered_run: "entered w \<Longrightarrow> entered (run es w)"
  by (induction es arbitrary: w) (simp_all add: entered_step)

lemma entered_finished:
  "finallyRuns w = 0 \<Longrightarrow> entered (settle s (finallyBlock w))"
  by (simp add: entered_def quiet_def settle_def finallyBlock_def)

lemma entered_awaitPromiseRace:
  assumes "outcome w = None" "finallyRuns w = 0"
  shows "entered (awaitPromiseRace ps w)"
proof (cases "find isSettled ps")
  case None
  with assms show ?thesis
    by (simp add: awaitPromiseRace_def entered_def quiet_def find_isSettled_None)
next
  case (Some p)
  then have "p \<noteq> Pending" by (rule find_isSettled_Some)
  then obtain s where "p = Settled s" by (cases p) simp_all
  with Some assms show ?thesis
    by (simp add: awaitPromiseRace_def entered_finished)
qed

lemma startCall_fields [simp]:
  "callerSignal (startCall cs) = cs" "controllerSignal (startCall cs) = newSignal"
  "calls (startCall cs) = []" "racing (startCall cs) = []" "awaiting (startCall cs) = False"
  "outcome (startCall cs) = None" "finallyRuns (startCall cs) = 0"
  by (simp_all add: startCall_def)

lemma newAbortController_fields [simp]:
  "callerSignal (newAbortController w) = callerSignal w"
  "controllerSignal (newAbortController w) = newSignal"
  "calls (newAbortController w) = calls w" "racing (newAbortController w) = racing w"
  "awaiting (newAbortController w) = awaiting w" "outcome (newAbortController w) = outcome w"
  "finallyRuns (newAbortController w) = finallyRuns w"
  by (simp_all add: newAbortController_def)

lemma not_aborted_newSignal [simp]: "\<not> aborted newSignal"
  by (simp add: aborted_def newSignal_def)

lemma tryEntry_eq:
  "tryEntry cs =
     \<lparr>callerSignal = addListener HandleAbort cs, controllerSignal = newSignal, calls = [],
      racing = [], awaiting = False, outcome = None, finallyRuns = 0\<rparr>"
  by (simp add: tryEntry_def newAbortController_def startCall_def newSignal_def aborted_def)

lemma raceStrategies_entry:
  assumes "abortSignal config = CallerSignal" "\<not> aborted cs" "g (transaction config) = Inr sg"
  shows "world (raceStrategies g config strategies cs) =
     (case strategies (config\<lparr>abortSignal := ControllerSignal\<rparr>) of
        (made, r) \<Rightarrow>
          (case r of
             Inl e \<Rightarrow> settle (Rejected e) (finallyBlock ((tryEntry cs)\<lparr>calls := made\<rparr>))
           | Inr specificStrategies \<Rightarrow>
               (case getRecentSignatureConfirmationPromise config
                       ControllerSignal (commitment config) sg of
                  Inl e \<Rightarrow>
                    settle (Rejected e) (finallyBlock ((tryEntry cs)\<lparr>calls := made @
                      [RecentSignatureConfirmation ControllerSignal (commitment config) sg]\<rparr>))
                | Inr p \<Rightarrow>
                    awaitPromiseRace (p # specificStrategies) ((tryEntry cs)\<lparr>calls := made @
                      [RecentSignatureConfirmation ControllerSignal (commitment config) sg]\<rparr>))))"
proof -
  from assms(2) have t: "throwIfAborted cs = Inr ()"
    by (simp add: throwIfAborted_def aborted_def)
  have c: "calls (tryEntry cs) = []" by (simp add: tryEntry_eq)
  let ?w = "world (raceStrategies g config strategies cs)"
  let ?k = "RecentSignatureConfirmation ControllerSignal (commitment config) sg"
  obtain made r where m: "strategies (config\<lparr>abortSignal := ControllerSignal\<rparr>) = (made, r)"
    by (cases "strategies (config\<lparr>abortSignal := ControllerSignal\<rparr>)")
  have s0: "callerSignal (startCall cs) = cs"
    by (simp add: startCall_def)
  show ?thesis
  proof (cases r)
    case (Inl e)
    have "?w = settle (Rejected e) (finallyBlock ((tryEntry cs)\<lparr>calls := made\<rparr>))"
      unfolding raceStrategies_def Let_def tryEntry_def
      by (simp add: assms(1,3) t m Inl s0)
    with m Inl show ?thesis by simp
  next
    case (Inr specificStrategies)
    show ?thesis
    proof (cases "getRecentSignatureConfirmationPromise config ControllerSignal (commitment config) sg")
      case (Inl e)
      have "?w = settle (Rejected e) (finallyBlock ((tryEntry cs)\<lparr>calls := made @ [?k]\<rparr>))"
        unfolding raceStrategies_def Let_def tryEntry_def
        by (simp add: assms(1,3) t m Inl Inr s0)
      with m Inl Inr show ?thesis by simp
    next
      case p: (Inr p)
      have "?w = awaitPromiseRace (p # specificStrategies) ((tryEntry cs)\<lparr>calls := made @ [?k]\<rparr>)"
        unfolding raceStrategies_def Let_def tryEntry_def
        by (simp add: assms(1,3) t m p Inr s0)
      with m p Inr show ?thesis by simp
    qed
  qed
qed

lemma entered_raceStrategies:
  assumes "abortSignal config = CallerSignal" "\<not> aborted cs" "g (transaction config) = Inr sg"
  shows "entered (world (raceStrategies g config strategies cs))"
proof -
  have f: "finallyRuns ((tryEntry cs)\<lparr>calls := k\<rparr>) = 0"
    and o: "outcome ((tryEntry cs)\<lparr>calls := k\<rparr>) = None" for k
    by (simp_all add: tryEntry_eq)
  show ?thesis
    unfolding raceStrategies_entry [of config cs g sg strategies, OF assms]
    by (simp add: entered_finished entered_awaitPromiseRace f o split: prod.splits sum.splits)
qed

lemma entered_settled:
  assumes "entered w"
  shows "finallyRuns w = (if outcome w = None then 0 else 1) \<and>
         (outcome w = None \<or> aborted (controllerSignal w))"
  using assms by (auto simp: entered_def quiet_def)

lemma raceStrategies_throws:
  assumes "abortSignal config = CallerSignal" "\<not> aborted cs" "g (transaction config) = Inr sg"
    and "snd (strategies (config\<lparr>abortSignal := ControllerSignal\<rparr>)) = Inl e"
  shows "outcome (world (raceStrategies g config strategies cs)) = Some (Rejected e)"
proof -
  obtain made where "strategies (config\<lparr>abortSignal := ControllerSignal\<rparr>) = (made, Inl e)"
    using assms(4) by (cases "strategies (config\<lparr>abortSignal := ControllerSignal\<rparr>)") simp
  then show ?thesis
    unfolding raceStrategies_entry [of config cs g sg strategies, OF assms(1-3)] by (simp add: settle_def)
qed

text \<open>
  Claim C5. Take a call of \<open>raceStrategies\<close> that gets as far as the \<open>try\<close> block:
  the caller's signal is not aborted and the signature is derived. At every moment
  afterwards the \<open>finally\<close> block has run exactly once if the call has settled and not
  at all if it is still pending, and a settled call has aborted the controller's signal,
  whether the race resolved, the race rejected or a factory threw. The last conjunct is
  the path on which the callback \<open>getSpecificStrategiesForRace\<close> throws: the call is
  rejected with the thrown error at once, after one run of the \<open>finally\<close> block.
\<close>

theorem cleanup_exactly_once:
  assumes "abortSignal config = CallerSignal" and "\<not> aborted cs"
    and "g (transaction config) = Inr sg"
    and "c = raceStrategies g config strategies cs"
  shows "finallyRuns (world (after es c)) = (if settled (after es c) = None then 0 else 1) \<and>
         (settled (after es c) = None \<or> aborted (controllerSignal (world (after es c)))) \<and>
         (snd (strategies (config\<lparr>abortSignal := ControllerSignal\<rparr>)) = Inl e \<longrightarrow>
            settled c = Some (Rejected e) \<and> finallyRuns (world c) = 1 \<and>
            aborted (controllerSignal (world c)))"
proof -
  have e0: "entered (world c)"
    unfolding assms(4) using assms(1-3) by (rule entered_raceStrategies)
  then have "entered (world (after es c))"
    by (simp add: entered_run)
  from entered_settled [OF this]
  have 1: "finallyRuns (world (after es c)) = (if settled (after es c) = None then 0 else 1)"
    and 2: "settled (after es c) = None \<or> aborted (controllerSignal (world (after es c)))"
    by (simp_all add: settled_def assms(4))
  have 3: "settled c = Some (Rejected e) \<and> finallyRuns (world c) = 1 \<and>
           aborted (controllerSignal (world c))"
    if t: "snd (strategies (config\<lparr>abortSignal := ControllerSignal\<rparr>)) = Inl e"
  proof -
    from raceStrategies_throws [of config cs g sg strategies e, OF assms(1-3) t]
    have o: "outcome (world c) = Some (Rejected e)" by (simp add: assms(4))
    with entered_settled [OF e0] show ?thesis
      by (simp add: settled_def assms(4))
  qed
  show ?thesis
  proof (intro conjI impI)
    show "finallyRuns (world (after es c)) = (if settled (after es c) = None then 0 else 1)"
      by (rule 1)
    show "settled (after es c) = None \<or> aborted (controllerSignal (world (after es c)))"
      by (rule 2)
  next
    assume t: "snd (strategies (config\<lparr>abortSignal := ControllerSignal\<rparr>)) = Inl e"
    from 3 [OF t] show "settled c = Some (Rejected e)" "finallyRuns (world c) = 1"
      "aborted (controllerSignal (world c))" by simp_all
  qed
qed


text \<open>Evaluated on the durable-nonce scenario, once with both promises settling and
  once with a callback that throws a \<open>TypeError\<close>.\<close>

theorem cleanup_exactly_once_witness:
  "abortSignal durableNonceScenario = CallerSignal \<and> \<not> aborted liveSignal \<and>
   feePayerSignature (transaction durableNonceScenario) = Inr ''Sig1'' \<and>
   finallyRuns (world (after [Settles 0 (Resolved Undefined), Settles 1 (Rejected AbortError)]
     (raceStrategies feePayerSignature durableNonceScenario
        getSpecificStrategiesForRace_durableNonce liveSignal))) = 1 \<and>
   aborted (controllerSignal (world (after [Settles 0 (Resolved Undefined), Settles 1 (Rejected AbortError)]
     (raceStrategies feePayerSignature durableNonceScenario
        getSpecificStrategiesForRace_durableNonce liveSignal)))) \<and>
   snd ((\<lambda>c. ([], Inl TypeError)) (durableNonceScenario\<lparr>abortSignal := ControllerSignal\<rparr>))
     = (Inl TypeError :: js_error + promise_state list) \<and>
   settled (raceStrategies feePayerSignature durableNonceScenario
     (\<lambda>c. ([], Inl TypeError)) liveSignal) = Some (Rejected TypeError) \<and>
   finallyRuns (world (raceStrategies feePayerSignature durableNonceScenario
     (\<lambda>c. ([], Inl TypeError)) liveSignal)) = 1"
proof -
  have a: "abortSignal durableNonceScenario = CallerSignal"
    by (simp add: durableNonceScenario_def)
  have b: "\<not> aborted liveSignal"
    by (simp add: liveSignal_def aborted_def)
  have c: "feePayerSignature (transaction durableNonceScenario) = Inr ''Sig1''"
    by (simp add: scenario_defs)
  have d: "settled (after [Settles 0 (Resolved Undefined), Settles 1 (Rejected AbortError)]
     (raceStrategies feePayerSignature durableNonceScenario
        getSpecificStrategiesForRace_durableNonce liveSignal)) \<noteq> None"
    by (simp add: settled_race durable_start settle_def finallyBlock_def)
  note t = cleanup_exactly_once [where config = durableNonceScenario and cs = liveSignal
      and g = feePayerSignature and sg = "''Sig1''", OF a b c refl]
  note t1 = t [where strategies = getSpecificStrategiesForRace_durableNonce
      and es = "[Settles 0 (Resolved Undefined), Settles 1 (Rejected AbortError)]"]
  from t1 have x: "finallyRuns (world (after [Settles 0 (Resolved Undefined), Settles 1 (Rejected AbortError)]
     (raceStrategies feePayerSignature durableNonceScenario
        getSpecificStrategiesForRace_durableNonce liveSignal))) =
     (if settled (after [Settles 0 (Resolved Undefined), Settles 1 (Rejected AbortError)]
     (raceStrategies feePayerSignature durableNonceScenario
        getSpecificStrategiesForRace_durableNonce liveSignal)) = None then 0 else 1)"
    by (rule conjunct1)
  from t1 have y: "settled (after [Settles 0 (Resolved Undefined), Settles 1 (Rejected AbortError)]
     (raceStrategies feePayerSignature durableNonceScenario
        getSpecificStrategiesForRace_durableNonce liveSignal)) = None \<or>
     aborted (controllerSignal (world (after [Settles 0 (Resolved Undefined), Settles 1 (Rejected AbortError)]
     (raceStrategies feePayerSignature durableNonceScenario
        getSpecificStrategiesForRace_durableNonce liveSignal))))"
    by (rule conjunct1 [OF conjunct2])
  from x d have 1: "finallyRuns (world (after [Settles 0 (Resolved Undefined), Settles 1 (Rejected AbortError)]
     (raceStrategies feePayerSignature durableNonceScenario
        getSpecificStrategiesForRace_durableNonce liveSignal))) = 1"
    by (simp only: if_False)
  from y d have 2: "aborted (controllerSignal (world (after [Settles 0 (Resolved Undefined), Settles 1 (Rejected AbortError)]
     (raceStrategies feePayerSignature durableNonceScenario
        getSpecificStrategiesForRace_durableNonce liveSignal))))"
    by (simp only: simp_thms)
  note t2 = t [where strategies = "\<lambda>c. ([], Inl TypeError)" and es = "[]" and e = TypeError]
  have z: "snd ((\<lambda>c. ([], Inl TypeError)) (durableNonceScenario\<lparr>abortSignal := ControllerSignal\<rparr>))
     = (Inl TypeError :: js_error + promise_state list)"
    by simp
  from t2 z have 3: "settled (raceStrategies feePayerSignature durableNonceScenario
     (\<lambda>c. ([], Inl TypeError)) liveSignal) = Some (Rejected TypeError) \<and>
   finallyRuns (world (raceStrategies feePayerSignature durableNonceScenario
     (\<lambda>c. ([], Inl TypeError)) liveSignal)) = 1"
    by blast
  from a b c 1 2 z 3 show ?thesis by (simp only: simp_thms)
qed

subsection \<open>First settlement wins\<close>



lemma stale_start:
  "world (raceStrategies feePayerSignature staleNonceScenario
     getSpecificStrategiesForRace_durableNonce liveSignal) =
   \<lparr>callerSignal = \<lparr>reason = None, listeners = [Foreign 7]\<rparr>,
    controllerSignal = \<lparr>reason = Some AbortError, listeners = []\<rparr>,
    calls = [NonceInvalidation ControllerSignal Confirmed ''N1'' ''NonceAccount'',
             RecentSignatureConfirmation ControllerSignal Confirmed ''Sig1''],
    racing = [Pending, Settled (Rejected (OtherError ''nonce already advanced''))],
    awaiting = False, outcome = Some (Rejected (OtherError ''nonce already advanced'')),
    finallyRuns = 1\<rparr>"
  by (simp add: call_defs scenario_defs staleNonceScenario_def)




subsection \<open>The listener on the caller's signal\<close>

lemma released_abort:
  assumes "released cs w"
  shows "removeAll HandleAbort (listeners (callerSignal (abort w)))
           = removeAll HandleAbort (listeners cs)"
    and "HandleAbort \<notin> set (listeners (callerSignal (abort w)))"
proof -
  from assms have e: "removeAll HandleAbort (listeners (callerSignal w))
      = removeAll HandleAbort (listeners cs)"
    and a: "aborted (controllerSignal w) \<Longrightarrow> HandleAbort \<notin> set (listeners (callerSignal w))"
    by (simp_all add: released_def)
  show "removeAll HandleAbort (listeners (callerSignal (abort w)))
           = removeAll HandleAbort (listeners cs)"
    using e by (cases "aborted (controllerSignal w)") (simp_all add: caller_listeners_abort)
  show "HandleAbort \<notin> set (listeners (callerSignal (abort w)))"
    using a by (cases "aborted (controllerSignal w)") (simp_all add: caller_listeners_abort)
qed

lemma released_step:
  assumes "released cs w"
  shows "released cs (step e w)"
proof (cases e)
  case (CallerAborts r)
  let ?v = "w\<lparr>callerSignal := (callerSignal w)\<lparr>reason := Some r\<rparr>\<rparr>"
  from assms have v: "released cs ?v" by (simp add: released_def)
  show ?thesis
  proof (cases "\<not> aborted (callerSignal w) \<and> HandleAbort \<in> set (listeners (callerSignal w))")
    case True
    with CallerAborts have s: "step e w = abort ?v"
      by (simp add: step_CallerAborts del: step.simps(1))
    from released_abort [OF v] show ?thesis
      unfolding s by (simp add: released_def)
  next
    case False
    show ?thesis
    proof (cases "aborted (callerSignal w)")
      case True
      with CallerAborts have "step e w = w" by simp
      with assms show ?thesis by simp
    next
      case live: False
      with False have "HandleAbort \<notin> set (listeners (callerSignal w))" by simp
      with live CallerAborts have "step e w = ?v"
        by (simp add: step_CallerAborts del: step.simps(1))
      with v show ?thesis by simp
    qed
  qed
next
  case (Settles i s)
  let ?v = "w\<lparr>racing := (racing w)[i := Settled s]\<rparr>"
  from assms have v: "released cs ?v" by (simp add: released_def)
  show ?thesis
  proof (cases "i < length (racing w) \<and> racing w ! i = Pending")
    case False
    with Settles have "step e w = w" by auto
    with assms show ?thesis by simp
  next
    case valid: True
    show ?thesis
    proof (cases "awaiting w")
      case True
      with valid have s: "step (Settles i s) w = settle s (finallyBlock ?v)"
        by (simp add: step_Settles_awaiting)
      from released_abort [OF v] show ?thesis
        unfolding Settles s by (simp add: released_def settle_def finallyBlock_def)
    next
      case False
      with valid Settles have "step e w = ?v" by (simp add: Let_def)
      with v show ?thesis by simp
    qed
  qed
qed

lemma released_run: "released cs w \<Longrightarrow> released cs (run es w)"
  by (induction es arbitrary: w) (simp_all add: released_step)


text \<open>The three ways in which the synchronous part of \<open>raceStrategies\<close> ends: before the
  controller exists, in the \<open>finally\<close> block after a throw, or at the race.\<close>

lemma raceStrategies_shape:
  fixes config :: "('l, 'z) base_config_scheme" and cs :: abort_signal
  defines "W \<equiv> addEventListener (abortSignal config) HandleAbort (newAbortController (startCall cs))"
  shows "(\<exists>e. world (raceStrategies g config strategies cs) = settle (Rejected e) (startCall cs)) \<or>
         (\<exists>e k. world (raceStrategies g config strategies cs)
                  = settle (Rejected e) (finallyBlock (W\<lparr>calls := k\<rparr>))) \<or>
         (\<exists>ps k. world (raceStrategies g config strategies cs)
                  = awaitPromiseRace ps (W\<lparr>calls := k\<rparr>))"
proof (cases "throwIfAborted (signalOf (startCall cs) (abortSignal config))")
  case (Inl e)
  then have "world (raceStrategies g config strategies cs) = settle (Rejected e) (startCall cs)"
    by (simp add: raceStrategies_def Let_def)
  then show ?thesis by blast
next
  case t: (Inr u)
  show ?thesis
  proof (cases "g (transaction config)")
    case (Inl e)
    with t have "world (raceStrategies g config strategies cs) = settle (Rejected e) (startCall cs)"
      by (simp add: raceStrategies_def Let_def)
    then show ?thesis by blast
  next
    case sg: (Inr sg)
    obtain made r where m: "strategies (config\<lparr>abortSignal := ControllerSignal\<rparr>) = (made, r)"
      by (cases "strategies (config\<lparr>abortSignal := ControllerSignal\<rparr>)")
    show ?thesis
    proof (cases r)
      case (Inl e)
      with t sg m have "world (raceStrategies g config strategies cs)
          = settle (Rejected e) (finallyBlock (W\<lparr>calls := calls W @ made\<rparr>))"
        by (simp add: raceStrategies_def Let_def W_def)
      then show ?thesis by blast
    next
      case sp: (Inr specificStrategies)
      show ?thesis
      proof (cases "getRecentSignatureConfirmationPromise config ControllerSignal (commitment config) sg")
        case (Inl e)
        with t sg m sp have "world (raceStrategies g config strategies cs)
            = settle (Rejected e) (finallyBlock (W\<lparr>calls := (calls W @ made) @
                [RecentSignatureConfirmation ControllerSignal (commitment config) sg]\<rparr>))"
          by (simp add: raceStrategies_def Let_def W_def)
        then show ?thesis by blast
      next
        case (Inr p)
        with t sg m sp have "world (raceStrategies g config strategies cs)
            = awaitPromiseRace (p # specificStrategies) (W\<lparr>calls := (calls W @ made) @
                [RecentSignatureConfirmation ControllerSignal (commitment config) sg]\<rparr>)"
          by (simp add: raceStrategies_def Let_def W_def)
        then show ?thesis by blast
      qed
    qed
  qed
qed

lemma released_settle_finally:
  assumes "removeAll HandleAbort (listeners (callerSignal w)) = removeAll HandleAbort (listeners cs)"
    and "\<not> aborted (controllerSignal w)"
  shows "released cs (settle s (finallyBlock w))"
  using assms by (simp add: released_def settle_def finallyBlock_def caller_listeners_abort)

lemma released_awaitPromiseRace:
  assumes "removeAll HandleAbort (listeners (callerSignal w)) = removeAll HandleAbort (listeners cs)"
    and "\<not> aborted (controllerSignal w)" and "outcome w = None"
  shows "released cs (awaitPromiseRace ps w)"
proof (cases "find isSettled ps")
  case None
  with assms show ?thesis by (simp add: awaitPromiseRace_def released_def)
next
  case (Some p)
  then have "p \<noteq> Pending" by (rule find_isSettled_Some)
  then obtain s where "p = Settled s" by (cases p) simp_all
  with Some assms(1,2) show ?thesis
    by (simp add: awaitPromiseRace_def released_settle_finally)
qed

lemma released_raceStrategies:
  assumes "HandleAbort \<notin> set (listeners cs)"
  shows "released cs (world (raceStrategies g config strategies cs))"
proof -
  let ?W = "addEventListener (abortSignal config) HandleAbort (newAbortController (startCall cs))"
  have l: "removeAll HandleAbort (listeners (callerSignal (?W\<lparr>calls := k\<rparr>)))
             = removeAll HandleAbort (listeners cs)"
    and a: "\<not> aborted (controllerSignal (?W\<lparr>calls := k\<rparr>))"
    and o: "outcome (?W\<lparr>calls := k\<rparr>) = None" for k
    by (cases "abortSignal config"; simp add: addListener_def aborted_def newSignal_def)+
  have e: "released cs (settle (Rejected e) (startCall cs))" for e
    using assms by (simp add: released_def settle_def)
  from raceStrategies_shape [of g config strategies cs]
  show ?thesis
    using e released_settle_finally [OF l a] released_awaitPromiseRace [OF l a o]
    by auto
qed

text \<open>
  Claim C6. Once a call has settled, with whatever outcome (a resolution, a rejection by
  a factory, a thrown error, an abort), the listener list of the caller's signal is the
  list it was before the call: \<open>handleAbort\<close> is not on it, and the listeners of other
  code are untouched. This holds for \<open>raceStrategies\<close> and for both public waiters, after
  any events.
\<close>

theorem caller_listener_removed:
  assumes "HandleAbort \<notin> set (listeners cs)"
  shows "(settled (after es (raceStrategies g config strategies cs)) \<noteq> None \<longrightarrow>
            HandleAbort \<notin> set (listeners (callerSignal
              (world (after es (raceStrategies g config strategies cs))))) \<and>
            listeners (callerSignal (world (after es (raceStrategies g config strategies cs))))
              = listeners cs) \<and>
         (settled (after es (waitForDurableNonceTransactionConfirmation gd dconfig cs)) \<noteq> None \<longrightarrow>
            HandleAbort \<notin> set (listeners (callerSignal
              (world (after es (waitForDurableNonceTransactionConfirmation gd dconfig cs))))) \<and>
            listeners (callerSignal
              (world (after es (waitForDurableNonceTransactionConfirmation gd dconfig cs))))
              = listeners cs) \<and>
         (settled (after es (waitForRecentTransactionConfirmation gr rconfig cs)) \<noteq> None \<longrightarrow>
            HandleAbort \<notin> set (listeners (callerSignal
              (world (after es (waitForRecentTransactionConfirmation gr rconfig cs))))) \<and>
            listeners (callerSignal
              (world (after es (waitForRecentTransactionConfirmation gr rconfig cs))))
              = listeners cs)"
proof -
  have key: "HandleAbort \<notin> set (listeners (callerSignal (run es (world (raceStrategies g' c' s' cs))))) \<and>
      listeners (callerSignal (run es (world (raceStrategies g' c' s' cs)))) = listeners cs"
    if "outcome (run es (world (raceStrategies g' c' s' cs))) \<noteq> None"
    for g' :: "'x transaction \<Rightarrow> js_error + signature" and c' :: "('x, 'y) base_config_scheme"
      and s'
  proof -
    let ?w = "run es (world (raceStrategies g' c' s' cs))"
    have r: "released cs ?w"
      by (rule released_run) (rule released_raceStrategies [OF assms])
    with that have n: "HandleAbort \<notin> set (listeners (callerSignal ?w))"
      by (simp add: released_def)
    then have "removeAll HandleAbort (listeners (callerSignal ?w)) = listeners (callerSignal ?w)"
      by simp
    moreover from r have "removeAll HandleAbort (listeners (callerSignal ?w))
        = removeAll HandleAbort (listeners cs)"
      by (simp add: released_def)
    moreover from assms have "removeAll HandleAbort (listeners cs) = listeners cs"
      by simp
    ultimately show ?thesis using n by simp
  qed
  show ?thesis
  proof (intro conjI impI)
    assume "settled (after es (raceStrategies g config strategies cs)) \<noteq> None"
    then have "outcome (run es (world (raceStrategies g config strategies cs))) \<noteq> None"
      by (simp add: settled_def)
    from key [OF this] assms
    show "HandleAbort \<notin> set (listeners (callerSignal
            (world (after es (raceStrategies g config strategies cs)))))"
      and "listeners (callerSignal (world (after es (raceStrategies g config strategies cs))))
            = listeners cs"
      by simp_all
  next
    assume "settled (after es (waitForDurableNonceTransactionConfirmation gd dconfig cs)) \<noteq> None"
    then have "outcome (run es (world (raceStrategies gd dconfig
        getSpecificStrategiesForRace_durableNonce cs))) \<noteq> None"
      by (simp add: settled_def waitForDurableNonceTransactionConfirmation_def awaitVoid_def)
    from key [OF this] assms
    show "HandleAbort \<notin> set (listeners (callerSignal
            (world (after es (waitForDurableNonceTransactionConfirmation gd dconfig cs)))))"
      and "listeners (callerSignal
            (world (after es (waitForDurableNonceTransactionConfirmation gd dconfig cs))))
            = listeners cs"
      by (simp_all add: world_durable)
  next
    assume "settled (after es (waitForRecentTransactionConfirmation gr rconfig cs)) \<noteq> None"
    then have "outcome (run es (world (raceStrategies gr rconfig
        getSpecificStrategiesForRace_recent cs))) \<noteq> None"
      by (simp add: settled_def waitForRecentTransactionConfirmation_def awaitVoid_def)
    from key [OF this] assms
    show "HandleAbort \<notin> set (listeners (callerSignal
            (world (after es (waitForRecentTransactionConfirmation gr rconfig cs)))))"
      and "listeners (callerSignal
            (world (after es (waitForRecentTransactionConfirmation gr rconfig cs))))
            = listeners cs"
      by (simp_all add: world_recent)
  qed
qed


theorem caller_listener_removed_witness:
  "HandleAbort \<notin> set (listeners liveSignal) \<and>
   settled (after [CallerAborts AbortError, Settles 0 (Rejected AbortError)]
     (raceStrategies feePayerSignature recentScenario getSpecificStrategiesForRace_recent liveSignal))
     \<noteq> None \<and>
   listeners (callerSignal (world (after [CallerAborts AbortError, Settles 0 (Rejected AbortError)]
     (raceStrategies feePayerSignature recentScenario getSpecificStrategiesForRace_recent liveSignal))))
     = listeners liveSignal \<and>
   settled (after [CallerAborts AbortError, Settles 0 (Rejected AbortError)]
     (waitForDurableNonceTransactionConfirmation feePayerSignature durableNonceScenario liveSignal))
     \<noteq> None \<and>
   listeners (callerSignal (world (after [CallerAborts AbortError, Settles 0 (Rejected AbortError)]
     (waitForDurableNonceTransactionConfirmation feePayerSignature durableNonceScenario liveSignal))))
     = listeners liveSignal \<and>
   settled (after [CallerAborts AbortError, Settles 0 (Rejected AbortError)]
     (waitForRecentTransactionConfirmation feePayerSignature recentScenario liveSignal))
     \<noteq> None \<and>
   listeners (callerSignal (world (after [CallerAborts AbortError, Settles 0 (Rejected AbortError)]
     (waitForRecentTransactionConfirmation feePayerSignature recentScenario liveSignal))))
     = listeners liveSignal"
proof -
  have h: "HandleAbort \<notin> set (listeners liveSignal)"
    by (simp add: liveSignal_def)
  have d: "settled (after [CallerAborts AbortError, Settles 0 (Rejected AbortError)]
     (waitForDurableNonceTransactionConfirmation feePayerSignature durableNonceScenario liveSignal))
     \<noteq> None"
    by (simp add: settled_durable durable_start
          abort_def aborted_def removeListener_def settle_def finallyBlock_def)
  have r: "settled (after [CallerAborts AbortError, Settles 0 (Rejected AbortError)]
     (waitForRecentTransactionConfirmation feePayerSignature recentScenario liveSignal))
     \<noteq> None"
    by (simp add: settled_recent recent_start
          abort_def aborted_def removeListener_def settle_def finallyBlock_def)
  have g: "settled (after [CallerAborts AbortError, Settles 0 (Rejected AbortError)]
     (raceStrategies feePayerSignature recentScenario getSpecificStrategiesForRace_recent liveSignal))
     \<noteq> None"
    by (simp add: settled_race recent_start
          abort_def aborted_def removeListener_def settle_def finallyBlock_def)
  note t = caller_listener_removed [OF h,
      where es = "[CallerAborts AbortError, Settles 0 (Rejected AbortError)]"
      and g = feePayerSignature and config = recentScenario
      and strategies = getSpecificStrategiesForRace_recent
      and gd = feePayerSignature and dconfig = durableNonceScenario
      and gr = feePayerSignature and rconfig = recentScenario]
  from t h d r g show ?thesis by blast
qed


subsection \<open>The caller's signal fires during the race\<close>


lemma awaiting_settle [simp]: "\<not> awaiting (settle s w)"
  by (simp add: settle_def)









subsection \<open>The strategy-specific promise of each waiter\<close>

lemma awaitPromiseRace_fields [simp]:
  "racing (awaitPromiseRace ps w) = ps" "calls (awaitPromiseRace ps w) = calls w"
proof -
  show "racing (awaitPromiseRace ps w) = ps"
  proof (cases "find isSettled ps")
    case None
    then show ?thesis by (simp add: awaitPromiseRace_def)
  next
    case (Some p)
    then show ?thesis
      by (cases p) (simp_all add: awaitPromiseRace_def settle_def finallyBlock_def)
  qed
  show "calls (awaitPromiseRace ps w) = calls w"
  proof (cases "find isSettled ps")
    case None
    then show ?thesis by (simp add: awaitPromiseRace_def)
  next
    case (Some p)
    then show ?thesis
      by (cases p) (simp_all add: awaitPromiseRace_def settle_def finallyBlock_def)
  qed
qed

lemma nonceAccountAddress_first:
  assumes "instructions tx = ins # rest" and "accounts ins = Some (acct # others)"
  shows "nonceAccountAddress tx = Inr (address acct)"
  using assms by (simp add: nonceAccountAddress_def)

lemma nonceAccountAddress_missing:
  assumes "instructions tx = [] \<or>
           (\<exists>i is. instructions tx = i # is \<and> (accounts i = None \<or> accounts i = Some []))"
  shows "nonceAccountAddress tx = Inl TypeError"
  using assms by (auto simp: nonceAccountAddress_def)

text \<open>
  Claim C7. A call of \<open>waitForDurableNonceTransactionConfirmation\<close> that reaches the race
  invokes the nonce-invalidation factory once, before the signature-confirmation
  factory, with the controller's signal, the caller's commitment, the nonce of the
  transaction's lifetime constraint and the address of the first account of the first
  instruction. Its callback returns exactly that one promise, and the race is between
  the signature-confirmation promise and it. No event adds a factory invocation.
\<close>

theorem durable_nonce_strategy:
  assumes "abortSignal config = CallerSignal" and "\<not> aborted cs"
    and "g (transaction config) = Inr sg"
    and "instructions (transaction config) = ins # rest"
    and "accounts ins = Some (acct # others)"
    and "getNonceInvalidationPromise config ControllerSignal (commitment config)
           (nonce (lifetimeConstraint (transaction config))) (address acct) = Inr p"
    and "getRecentSignatureConfirmationPromise config ControllerSignal (commitment config) sg
           = Inr q"
  shows "getSpecificStrategiesForRace_durableNonce (config\<lparr>abortSignal := ControllerSignal\<rparr>) =
           ([NonceInvalidation ControllerSignal (commitment config)
               (nonce (lifetimeConstraint (transaction config))) (address acct)], Inr [p]) \<and>
         calls (world (after es (waitForDurableNonceTransactionConfirmation g config cs))) =
           [NonceInvalidation ControllerSignal (commitment config)
              (nonce (lifetimeConstraint (transaction config))) (address acct),
            RecentSignatureConfirmation ControllerSignal (commitment config) sg] \<and>
         racing (world (waitForDurableNonceTransactionConfirmation g config cs)) = [q, p]"
proof -
  from nonceAccountAddress_first [OF assms(4,5)]
  have n: "nonceAccountAddress (transaction config) = Inr (address acct)" .
  have s: "getSpecificStrategiesForRace_durableNonce (config\<lparr>abortSignal := ControllerSignal\<rparr>) =
           ([NonceInvalidation ControllerSignal (commitment config)
               (nonce (lifetimeConstraint (transaction config))) (address acct)], Inr [p])"
    by (simp add: getSpecificStrategiesForRace_durableNonce_def Let_def n assms(6))
  have w: "world (raceStrategies g config getSpecificStrategiesForRace_durableNonce cs) =
      awaitPromiseRace [q, p] ((tryEntry cs)\<lparr>calls :=
        [NonceInvalidation ControllerSignal (commitment config)
           (nonce (lifetimeConstraint (transaction config))) (address acct),
         RecentSignatureConfirmation ControllerSignal (commitment config) sg]\<rparr>)"
    unfolding raceStrategies_entry [of config cs g sg, OF assms(1-3)]
    by (simp add: s assms(7))
  show ?thesis
    by (simp add: s world_durable w calls_run)
qed

theorem durable_nonce_strategy_witness:
  "abortSignal durableNonceScenario = CallerSignal \<and> \<not> aborted liveSignal \<and>
   feePayerSignature (transaction durableNonceScenario) = Inr ''Sig1'' \<and>
   calls (world (after [Settles 1 (Rejected AbortError)]
     (waitForDurableNonceTransactionConfirmation feePayerSignature durableNonceScenario liveSignal))) =
     [NonceInvalidation ControllerSignal Confirmed ''N1'' ''NonceAccount'',
      RecentSignatureConfirmation ControllerSignal Confirmed ''Sig1''] \<and>
   racing (world
     (waitForDurableNonceTransactionConfirmation feePayerSignature durableNonceScenario liveSignal)) =
     [Pending, Pending]"
proof -
  have a: "abortSignal durableNonceScenario = CallerSignal"
    by (simp add: durableNonceScenario_def)
  have b: "\<not> aborted liveSignal"
    by (simp add: liveSignal_def aborted_def)
  have c: "feePayerSignature (transaction durableNonceScenario) = Inr ''Sig1''"
    by (simp add: scenario_defs)
  have d: "instructions (transaction durableNonceScenario) =
      \<lparr>accounts = Some [\<lparr>address = ''NonceAccount''\<rparr>, \<lparr>address = ''Authority''\<rparr>],
       programAddress = ''System''\<rparr> # []"
    by (simp add: scenario_defs)
  have e: "accounts \<lparr>accounts = Some [\<lparr>address = ''NonceAccount''\<rparr>, \<lparr>address = ''Authority''\<rparr>],
       programAddress = ''System''\<rparr> = Some (\<lparr>address = ''NonceAccount''\<rparr> # [\<lparr>address = ''Authority''\<rparr>])"
    by simp
  have f: "getNonceInvalidationPromise durableNonceScenario ControllerSignal
      (commitment durableNonceScenario)
      (nonce (lifetimeConstraint (transaction durableNonceScenario)))
      (address \<lparr>address = ''NonceAccount''\<rparr>) = Inr Pending"
    by (simp add: scenario_defs)
  have h: "getRecentSignatureConfirmationPromise durableNonceScenario ControllerSignal
      (commitment durableNonceScenario) ''Sig1'' = Inr Pending"
    by (simp add: scenario_defs)
  note t = durable_nonce_strategy [where g = feePayerSignature and config = durableNonceScenario
      and cs = liveSignal and sg = "''Sig1''" and es = "[Settles 1 (Rejected AbortError)]",
      OF a b c d e f h]
  have v: "commitment durableNonceScenario = Confirmed"
    "nonce (lifetimeConstraint (transaction durableNonceScenario)) = ''N1''"
    "address \<lparr>address = ''NonceAccount''\<rparr> = ''NonceAccount''"
    by (simp_all add: scenario_defs)
  from t [unfolded v] a b c show ?thesis by blast
qed

text \<open>
  Claim C8. A call of \<open>waitForRecentTransactionConfirmation\<close> that reaches the race
  invokes the block-height-exceedence factory once, before the signature-confirmation
  factory, with the controller's signal and the \<open>lastValidBlockHeight\<close> of the
  transaction's lifetime constraint. Its callback returns exactly that one promise, and
  the race is between the signature-confirmation promise and it.
\<close>

theorem recent_block_height_strategy:
  assumes "abortSignal config = CallerSignal" and "\<not> aborted cs"
    and "g (transaction config) = Inr sg"
    and "getBlockHeightExceedencePromise config ControllerSignal
           (lastValidBlockHeight (lifetimeConstraint (transaction config))) = Inr p"
    and "getRecentSignatureConfirmationPromise config ControllerSignal (commitment config) sg
           = Inr q"
  shows "getSpecificStrategiesForRace_recent (config\<lparr>abortSignal := ControllerSignal\<rparr>) =
           ([BlockHeightExceedence ControllerSignal
               (lastValidBlockHeight (lifetimeConstraint (transaction config)))], Inr [p]) \<and>
         calls (world (after es (waitForRecentTransactionConfirmation g config cs))) =
           [BlockHeightExceedence ControllerSignal
              (lastValidBlockHeight (lifetimeConstraint (transaction config))),
            RecentSignatureConfirmation ControllerSignal (commitment config) sg] \<and>
         racing (world (waitForRecentTransactionConfirmation g config cs)) = [q, p]"
proof -
  have s: "getSpecificStrategiesForRace_recent (config\<lparr>abortSignal := ControllerSignal\<rparr>) =
           ([BlockHeightExceedence ControllerSignal
               (lastValidBlockHeight (lifetimeConstraint (transaction config)))], Inr [p])"
    by (simp add: getSpecificStrategiesForRace_recent_def Let_def assms(4))
  have w: "world (raceStrategies g config getSpecificStrategiesForRace_recent cs) =
      awaitPromiseRace [q, p] ((tryEntry cs)\<lparr>calls :=
        [BlockHeightExceedence ControllerSignal
           (lastValidBlockHeight (lifetimeConstraint (transaction config))),
         RecentSignatureConfirmation ControllerSignal (commitment config) sg]\<rparr>)"
    unfolding raceStrategies_entry [of config cs g sg, OF assms(1-3)]
    by (simp add: s assms(5))
  show ?thesis
    by (simp add: s world_recent w calls_run)
qed

theorem recent_block_height_strategy_witness:
  "abortSignal recentScenario = CallerSignal \<and> \<not> aborted liveSignal \<and>
   feePayerSignature (transaction recentScenario) = Inr ''Sig2'' \<and>
   calls (world (after [Settles 0 (Resolved Undefined)]
     (waitForRecentTransactionConfirmation feePayerSignature recentScenario liveSignal))) =
     [BlockHeightExceedence ControllerSignal 100,
      RecentSignatureConfirmation ControllerSignal Finalized ''Sig2''] \<and>
   racing (world
     (waitForRecentTransactionConfirmation feePayerSignature recentScenario liveSignal)) =
     [Pending, Pending]"
proof -
  have a: "abortSignal recentScenario = CallerSignal"
    by (simp add: recentScenario_def)
  have b: "\<not> aborted liveSignal"
    by (simp add: liveSignal_def aborted_def)
  have c: "feePayerSignature (transaction recentScenario) = Inr ''Sig2''"
    by (simp add: scenario_defs)
  have f: "getBlockHeightExceedencePromise recentScenario ControllerSignal
      (lastValidBlockHeight (lifetimeConstraint (transaction recentScenario))) = Inr Pending"
    by (simp add: scenario_defs)
  have h: "getRecentSignatureConfirmationPromise recentScenario ControllerSignal
      (commitment recentScenario) ''Sig2'' = Inr Pending"
    by (simp add: scenario_defs)
  note t = recent_block_height_strategy [where g = feePayerSignature and config = recentScenario
      and cs = liveSignal and sg = "''Sig2''" and es = "[Settles 0 (Resolved Undefined)]",
      OF a b c f h]
  have v: "commitment recentScenario = Finalized"
    "lastValidBlockHeight (lifetimeConstraint (transaction recentScenario)) = 100"
    by (simp_all add: scenario_defs)
  from t [unfolded v] a b c show ?thesis by blast
qed



subsection \<open>The durable-nonce race\<close>

lemma racing_tryEntry [simp]: "racing ((tryEntry cs)\<lparr>calls := k\<rparr>) = []"
  by (simp add: tryEntry_eq)

text \<open>The array handed to \<open>Promise.race\<close> is the signature-confirmation promise followed
  by the promises of the callback.\<close>

lemma raceStrategies_racing:
  assumes "awaiting (world (raceStrategies g config strategies cs))"
  shows "\<exists>made sp q. strategies (config\<lparr>abortSignal := ControllerSignal\<rparr>) = (made, Inr sp) \<and>
           racing (world (raceStrategies g config strategies cs)) = q # sp"
proof (cases "throwIfAborted (signalOf (startCall cs) (abortSignal config))")
  case (Inl e)
  then have "world (raceStrategies g config strategies cs) = settle (Rejected e) (startCall cs)"
    by (simp add: raceStrategies_def Let_def)
  with assms show ?thesis by simp
next
  case t: (Inr u)
  show ?thesis
  proof (cases "g (transaction config)")
    case (Inl e)
    with t have "world (raceStrategies g config strategies cs) = settle (Rejected e) (startCall cs)"
      by (simp add: raceStrategies_def Let_def)
    with assms show ?thesis by simp
  next
    case sg: (Inr sg)
    obtain made r where m: "strategies (config\<lparr>abortSignal := ControllerSignal\<rparr>) = (made, r)"
      by (cases "strategies (config\<lparr>abortSignal := ControllerSignal\<rparr>)")
    show ?thesis
    proof (cases r)
      case (Inl e)
      with t sg m have "\<not> awaiting (world (raceStrategies g config strategies cs))"
        by (simp add: raceStrategies_def Let_def)
      with assms show ?thesis by simp
    next
      case sp: (Inr specificStrategies)
      show ?thesis
      proof (cases "getRecentSignatureConfirmationPromise config ControllerSignal (commitment config) sg")
        case (Inl e)
        with t sg m sp have "\<not> awaiting (world (raceStrategies g config strategies cs))"
          by (simp add: raceStrategies_def Let_def)
        with assms show ?thesis by simp
      next
        case (Inr p)
        with t sg m sp have "racing (world (raceStrategies g config strategies cs))
            = p # specificStrategies"
          by (simp add: raceStrategies_def Let_def)
        with m sp show ?thesis by blast
      qed
    qed
  qed
qed

lemma durable_callback_one:
  assumes "getSpecificStrategiesForRace_durableNonce config = (made, Inr sp)"
  shows "\<exists>p. sp = [p]"
  using assms
  by (simp add: getSpecificStrategiesForRace_durableNonce_def Let_def split: sum.splits) blast

lemma durable_racing:
  assumes "awaiting (world (raceStrategies g config getSpecificStrategiesForRace_durableNonce cs))"
  shows "length (racing (world (raceStrategies g config
           getSpecificStrategiesForRace_durableNonce cs))) = 2"
proof -
  from raceStrategies_racing [OF assms] obtain made sp q where
    "getSpecificStrategiesForRace_durableNonce (config\<lparr>abortSignal := ControllerSignal\<rparr>)
       = (made, Inr sp)"
    and r: "racing (world (raceStrategies g config getSpecificStrategiesForRace_durableNonce cs))
       = q # sp"
    by blast
  from durable_callback_one [OF this(1)] obtain p where "sp = [p]" ..
  with r show ?thesis by simp
qed

text \<open>The state of a durable-nonce call that reaches the race.\<close>

lemma durable_world:
  assumes "abortSignal config = CallerSignal" and "\<not> aborted cs"
    and "g (transaction config) = Inr sg"
    and "instructions (transaction config) = ins # rest"
    and "accounts ins = Some (acct # others)"
    and "getNonceInvalidationPromise config ControllerSignal (commitment config)
           (nonce (lifetimeConstraint (transaction config))) (address acct) = Inr p"
    and "getRecentSignatureConfirmationPromise config ControllerSignal (commitment config) sg
           = Inr q"
  shows "world (raceStrategies g config getSpecificStrategiesForRace_durableNonce cs) =
      awaitPromiseRace [q, p] ((tryEntry cs)\<lparr>calls :=
        [NonceInvalidation ControllerSignal (commitment config)
           (nonce (lifetimeConstraint (transaction config))) (address acct),
         RecentSignatureConfirmation ControllerSignal (commitment config) sg]\<rparr>)"
proof -
  from nonceAccountAddress_first [OF assms(4,5)]
  have n: "nonceAccountAddress (transaction config) = Inr (address acct)" .
  have s: "getSpecificStrategiesForRace_durableNonce (config\<lparr>abortSignal := ControllerSignal\<rparr>) =
           ([NonceInvalidation ControllerSignal (commitment config)
               (nonce (lifetimeConstraint (transaction config))) (address acct)], Inr [p])"
    by (simp add: getSpecificStrategiesForRace_durableNonce_def Let_def n assms(6))
  show ?thesis
    unfolding raceStrategies_entry [of config cs g sg, OF assms(1-3)]
    by (simp add: s assms(7))
qed

lemma awaitPromiseRace_decided:
  assumes "find isSettled ps = Some (Settled s)"
  shows "outcome (run post (awaitPromiseRace ps w)) = Some s"
proof -
  from assms have w: "awaitPromiseRace ps w = settle s (finallyBlock (w\<lparr>racing := ps\<rparr>))"
    by (simp add: awaitPromiseRace_def)
  have "\<not> awaiting (awaitPromiseRace ps w)" and "outcome (awaitPromiseRace ps w) = Some s"
    unfolding w by (simp_all add: settle_def)
  with run_not_awaiting [of "awaitPromiseRace ps w" post] show ?thesis by simp
qed

lemma awaitPromiseRace_pending:
  assumes "find isSettled ps = None"
  shows "awaiting (awaitPromiseRace ps w)"
  using assms by (simp add: awaitPromiseRace_def)

text \<open>An abort by the caller leaves a suspended call suspended and the promises of the
  race as they are, so the first of them to settle still decides.\<close>

lemma step_CallerAborts_fields:
  "awaiting (step (CallerAborts r) w) = awaiting w \<and>
   racing (step (CallerAborts r) w) = racing w"
  by (simp add: step_CallerAborts del: step.simps(1))

lemma run_CallerAborts:
  "awaiting (run (map CallerAborts rs) w) = awaiting w \<and>
   racing (run (map CallerAborts rs) w) = racing w"
proof (induction rs arbitrary: w)
  case Nil
  show ?case by simp
next
  case (Cons r rs)
  from Cons [of "step (CallerAborts r) w"] step_CallerAborts_fields [of r w]
  show ?case by (simp del: step.simps)
qed

lemma pending_after_aborts:
  assumes q: "quiet w" and a: "awaiting w"
  shows "outcome (run (map CallerAborts rs) w) = None"
proof -
  from q have "quiet (run (map CallerAborts rs) w)" by (rule quiet_run)
  with a run_CallerAborts [of rs w] show ?thesis by (simp add: quiet_def)
qed

lemma settles_first_after_aborts:
  assumes q: "quiet w" and a: "awaiting w" and i: "i < length (racing w)"
  shows "outcome (run (map CallerAborts rs @ Settles i s # post) w) = Some s"
proof -
  let ?w = "run (map CallerAborts rs) w"
  from q have q': "quiet ?w" by (rule quiet_run)
  from a run_CallerAborts [of rs w] have a': "awaiting ?w" by simp
  from i run_CallerAborts [of rs w] have i': "i < length (racing ?w)" by simp
  from settles_first [OF q' a' i', of s post] show ?thesis
    by (simp only: run_append)
qed

text \<open>
  Claim C2, as the code has it. The durable-nonce waiter does not defer to the signature
  signal: it hands the signature-confirmation promise (index 0) and the nonce-invalidation
  promise (index 1) to \<open>Promise.race\<close>, and the first settlement decides.

  First conjunct: a call suspended on the race has no outcome, also after any aborts
  \<open>rs\<close> by the caller, and whichever of the two promises settles first, with any
  settlement \<open>s\<close>, settles the call with \<open>s\<close>, whatever events \<open>post\<close> follow. In
  particular, when the nonce-invalidation promise settles first, a later resolution of
  the signature-confirmation promise is discarded.

  Second conjunct: on a call that reaches the race (the caller's signal is not aborted,
  the signature is derived, the first instruction has a first account, both factories
  return a promise), the array is \<open>[q, p]\<close>. If both promises are pending on return, the
  call is suspended. If the signature-confirmation promise is pending and the
  nonce-invalidation promise is already settled on return, the call settles with the
  latter. If the signature-confirmation promise is already settled on return, the call
  settles with it, whatever the nonce-invalidation promise is, since it comes first in
  the array. The \<open>Promise<void>\<close> of the waiter carries \<open>undefined\<close> as its value.
\<close>

theorem durable_nonce_race:
  assumes "c = waitForDurableNonceTransactionConfirmation g config cs"
  shows "(awaiting (world c) \<longrightarrow>
            length (racing (world c)) = 2 \<and>
            settled (after (map CallerAborts rs) c) = None \<and>
            settled (after (map CallerAborts rs @ Settles 1 s # post) c)
              = Some (discardValue s) \<and>
            settled (after (map CallerAborts rs @ Settles 1 s # Settles 0 (Resolved v) # post) c)
              = Some (discardValue s) \<and>
            settled (after (map CallerAborts rs @ Settles 0 s # post) c)
              = Some (discardValue s)) \<and>
         (abortSignal config = CallerSignal \<and> \<not> aborted cs \<and>
          g (transaction config) = Inr sg \<and>
          instructions (transaction config) = ins # rest \<and>
          accounts ins = Some (acct # others) \<and>
          getNonceInvalidationPromise config ControllerSignal (commitment config)
            (nonce (lifetimeConstraint (transaction config))) (address acct) = Inr p \<and>
          getRecentSignatureConfirmationPromise config ControllerSignal (commitment config) sg
            = Inr q \<longrightarrow>
            racing (world c) = [q, p] \<and>
            (q = Pending \<and> p = Pending \<longrightarrow> awaiting (world c)) \<and>
            (q = Pending \<and> p = Settled s \<longrightarrow>
               settled (after post c) = Some (discardValue s)) \<and>
            (q = Settled s \<longrightarrow> settled (after post c) = Some (discardValue s)))"
proof (intro conjI impI)
  let ?w = "world (raceStrategies g config getSpecificStrategiesForRace_durableNonce cs)"
  assume "awaiting (world c)"
  with assms have a: "awaiting ?w" by (simp add: world_durable)
  from durable_racing [OF a] have l: "length (racing ?w) = 2" .
  have q: "quiet ?w" by (rule quiet_raceStrategies)
  from l have i0: "0 < length (racing ?w)" and i1: "1 < length (racing ?w)" by simp_all
  note 0 = pending_after_aborts [OF q a, of rs]
  note 1 = settles_first_after_aborts [OF q a i1, of rs s post]
  note 2 = settles_first_after_aborts [OF q a i1, of rs s "Settles 0 (Resolved v) # post"]
  note 3 = settles_first_after_aborts [OF q a i0, of rs s post]
  from l show "length (racing (world c)) = 2" by (simp add: assms world_durable)
  show "settled (after (map CallerAborts rs) c) = None"
    unfolding assms settled_durable by (simp only: 0 option.map)
  show "settled (after (map CallerAborts rs @ Settles 1 s # post) c) = Some (discardValue s)"
    unfolding assms settled_durable by (simp only: 1 option.map)
  show "settled (after (map CallerAborts rs @ Settles 1 s # Settles 0 (Resolved v) # post) c)
      = Some (discardValue s)"
    unfolding assms settled_durable by (simp only: 2 option.map)
  show "settled (after (map CallerAborts rs @ Settles 0 s # post) c) = Some (discardValue s)"
    unfolding assms settled_durable by (simp only: 3 option.map)
next
  let ?w = "world (raceStrategies g config getSpecificStrategiesForRace_durableNonce cs)"
  assume h: "abortSignal config = CallerSignal \<and> \<not> aborted cs \<and>
          g (transaction config) = Inr sg \<and>
          instructions (transaction config) = ins # rest \<and>
          accounts ins = Some (acct # others) \<and>
          getNonceInvalidationPromise config ControllerSignal (commitment config)
            (nonce (lifetimeConstraint (transaction config))) (address acct) = Inr p \<and>
          getRecentSignatureConfirmationPromise config ControllerSignal (commitment config) sg
            = Inr q"
  then have "abortSignal config = CallerSignal" "\<not> aborted cs"
    "g (transaction config) = Inr sg" "instructions (transaction config) = ins # rest"
    "accounts ins = Some (acct # others)"
    "getNonceInvalidationPromise config ControllerSignal (commitment config)
            (nonce (lifetimeConstraint (transaction config))) (address acct) = Inr p"
    "getRecentSignatureConfirmationPromise config ControllerSignal (commitment config) sg
            = Inr q"
    by blast+
  note w = durable_world [of config cs g sg ins rest acct others p q, OF this]
  show "racing (world c) = [q, p]"
    by (simp add: assms world_durable w)
  {
    assume "q = Pending \<and> p = Pending"
    then have "find isSettled [q, p] = None" by simp
    from awaitPromiseRace_pending [OF this] show "awaiting (world c)"
      by (simp add: assms world_durable w)
  }
  {
    assume "q = Pending \<and> p = Settled s"
    then have "find isSettled [q, p] = Some (Settled s)" by simp
    from awaitPromiseRace_decided [OF this, of post]
    show "settled (after post c) = Some (discardValue s)"
      unfolding assms settled_durable w by simp
  }
  {
    assume "q = Settled s"
    then have "find isSettled [q, p] = Some (Settled s)" by simp
    from awaitPromiseRace_decided [OF this, of post]
    show "settled (after post c) = Some (discardValue s)"
      unfolding assms settled_durable w by simp
  }
qed


lemma reach_facts:
  "abortSignal durableNonceScenario = CallerSignal"
  "abortSignal staleNonceScenario = CallerSignal"
  "abortSignal tieScenario = CallerSignal"
  "\<not> aborted liveSignal"
  "feePayerSignature (transaction durableNonceScenario) = Inr ''Sig1''"
  "feePayerSignature (transaction staleNonceScenario) = Inr ''Sig1''"
  "feePayerSignature (transaction tieScenario) = Inr ''Sig1''"
  by (simp_all add: scenario_defs staleNonceScenario_def tieScenario_def aborted_def)

text \<open>Evaluated on three scenarios: both promises pending on return, the
  nonce-invalidation promise rejected on return, and both settled on return.\<close>

theorem durable_nonce_race_witness:
  "awaiting (world (waitForDurableNonceTransactionConfirmation feePayerSignature
      durableNonceScenario liveSignal)) \<and>
   settled (after [Settles 1 (Resolved (Val ''nonce checked''))]
     (waitForDurableNonceTransactionConfirmation feePayerSignature durableNonceScenario liveSignal))
     = Some (Resolved Undefined) \<and>
   settled (after (Settles 0 (Resolved (Val ''nonce checked'')) # [Settles 1 (Rejected AbortError)])
     (waitForDurableNonceTransactionConfirmation feePayerSignature durableNonceScenario liveSignal))
     = Some (Resolved Undefined) \<and>
   settled (after (map CallerAborts [AbortError] @
                   Settles 1 (Rejected AbortError) # [Settles 0 (Resolved Undefined)])
     (waitForDurableNonceTransactionConfirmation feePayerSignature durableNonceScenario liveSignal))
     = Some (Rejected AbortError) \<and>
   racing (world (waitForDurableNonceTransactionConfirmation feePayerSignature
      staleNonceScenario liveSignal))
     = [Pending, Settled (Rejected (OtherError ''nonce already advanced''))] \<and>
   settled (after [Settles 0 (Resolved Undefined)]
     (waitForDurableNonceTransactionConfirmation feePayerSignature staleNonceScenario liveSignal))
     = Some (Rejected (OtherError ''nonce already advanced'')) \<and>
   racing (world (waitForDurableNonceTransactionConfirmation feePayerSignature
      tieScenario liveSignal))
     = [Settled (Resolved Undefined), Settled (Rejected (OtherError ''nonce already advanced''))] \<and>
   settled (after []
     (waitForDurableNonceTransactionConfirmation feePayerSignature tieScenario liveSignal))
     = Some (Resolved Undefined)"
proof -
  let ?ins = "\<lparr>accounts = Some [\<lparr>address = ''NonceAccount''\<rparr>, \<lparr>address = ''Authority''\<rparr>],
               programAddress = ''System''\<rparr>"
  have a: "awaiting (world (waitForDurableNonceTransactionConfirmation feePayerSignature
      durableNonceScenario liveSignal))"
    by (simp add: world_durable durable_start)
  note t1 = durable_nonce_race [where g = feePayerSignature and config = durableNonceScenario
      and cs = liveSignal and s = "Resolved (Val ''nonce checked'')"
      and post = "[Settles 1 (Rejected AbortError)]" and rs = "[]", OF refl]
  note t1' = durable_nonce_race [where g = feePayerSignature and config = durableNonceScenario
      and cs = liveSignal and s = "Resolved (Val ''nonce checked'')"
      and post = "[]" and rs = "[]", OF refl]
  note t1'' = durable_nonce_race [where g = feePayerSignature and config = durableNonceScenario
      and cs = liveSignal and s = "Rejected AbortError"
      and post = "[Settles 0 (Resolved Undefined)]" and rs = "[AbortError]", OF refl]
  have d: "discardValue (Resolved (Val ''nonce checked'')) = Resolved Undefined"
    "discardValue (Rejected (OtherError ''nonce already advanced''))
       = Rejected (OtherError ''nonce already advanced'')"
    "discardValue (Resolved Undefined) = Resolved Undefined"
    "discardValue (Rejected AbortError) = Rejected AbortError"
    "map CallerAborts [] @ es = es" for es
    by simp_all
  from t1'' [unfolded d] a
  have 0: "settled (after (map CallerAborts [AbortError] @
                   Settles 1 (Rejected AbortError) # [Settles 0 (Resolved Undefined)])
     (waitForDurableNonceTransactionConfirmation feePayerSignature durableNonceScenario liveSignal))
     = Some (Rejected AbortError)"
    by blast
  from t1 [unfolded d] a
  have 1: "settled (after (Settles 0 (Resolved (Val ''nonce checked'')) # [Settles 1 (Rejected AbortError)])
     (waitForDurableNonceTransactionConfirmation feePayerSignature durableNonceScenario liveSignal))
     = Some (Resolved Undefined)"
    by blast
  from t1' [unfolded d] a
  have 2: "settled (after [Settles 1 (Resolved (Val ''nonce checked''))]
     (waitForDurableNonceTransactionConfirmation feePayerSignature durableNonceScenario liveSignal))
     = Some (Resolved Undefined)"
    by blast
  have hs: "instructions (transaction staleNonceScenario) = ?ins # []"
    "accounts ?ins = Some (\<lparr>address = ''NonceAccount''\<rparr> # [\<lparr>address = ''Authority''\<rparr>])"
    "getNonceInvalidationPromise staleNonceScenario ControllerSignal
       (commitment staleNonceScenario)
       (nonce (lifetimeConstraint (transaction staleNonceScenario)))
       (address \<lparr>address = ''NonceAccount''\<rparr>)
       = Inr (Settled (Rejected (OtherError ''nonce already advanced'')))"
    "getRecentSignatureConfirmationPromise staleNonceScenario ControllerSignal
       (commitment staleNonceScenario) ''Sig1'' = Inr Pending"
    by (simp_all add: scenario_defs staleNonceScenario_def)
  note t2 = durable_nonce_race [where g = feePayerSignature and config = staleNonceScenario
      and cs = liveSignal and sg = "''Sig1''" and ins = ?ins and rest = "[]"
      and acct = "\<lparr>address = ''NonceAccount''\<rparr>" and others = "[\<lparr>address = ''Authority''\<rparr>]"
      and q = Pending and p = "Settled (Rejected (OtherError ''nonce already advanced''))"
      and s = "Rejected (OtherError ''nonce already advanced'')"
      and post = "[Settles 0 (Resolved Undefined)]", OF refl]
  from t2 [unfolded d] reach_facts hs
  have 3: "racing (world (waitForDurableNonceTransactionConfirmation feePayerSignature
      staleNonceScenario liveSignal))
     = [Pending, Settled (Rejected (OtherError ''nonce already advanced''))] \<and>
   settled (after [Settles 0 (Resolved Undefined)]
     (waitForDurableNonceTransactionConfirmation feePayerSignature staleNonceScenario liveSignal))
     = Some (Rejected (OtherError ''nonce already advanced''))"
    by blast
  have ht: "instructions (transaction tieScenario) = ?ins # []"
    "getNonceInvalidationPromise tieScenario ControllerSignal
       (commitment tieScenario)
       (nonce (lifetimeConstraint (transaction tieScenario)))
       (address \<lparr>address = ''NonceAccount''\<rparr>)
       = Inr (Settled (Rejected (OtherError ''nonce already advanced'')))"
    "getRecentSignatureConfirmationPromise tieScenario ControllerSignal
       (commitment tieScenario) ''Sig1'' = Inr (Settled (Resolved Undefined))"
    by (simp_all add: scenario_defs tieScenario_def)
  note t3 = durable_nonce_race [where g = feePayerSignature and config = tieScenario
      and cs = liveSignal and sg = "''Sig1''" and ins = ?ins and rest = "[]"
      and acct = "\<lparr>address = ''NonceAccount''\<rparr>" and others = "[\<lparr>address = ''Authority''\<rparr>]"
      and q = "Settled (Resolved Undefined)"
      and p = "Settled (Rejected (OtherError ''nonce already advanced''))"
      and s = "Resolved Undefined" and post = "[]", OF refl]
  from t3 [unfolded d] reach_facts hs(2) ht
  have 4: "racing (world (waitForDurableNonceTransactionConfirmation feePayerSignature
      tieScenario liveSignal))
     = [Settled (Resolved Undefined), Settled (Rejected (OtherError ''nonce already advanced''))] \<and>
   settled (after []
     (waitForDurableNonceTransactionConfirmation feePayerSignature tieScenario liveSignal))
     = Some (Resolved Undefined)"
    by blast
  from a 0 1 2 3 4 show ?thesis by blast
qed

text \<open>
  Against claim C2 as stated: in the durable-nonce scenario (nonce \<open>N1\<close>) the
  nonce-invalidation promise reports that the nonce advanced before the signature is
  confirmed. The call is rejected with that error at once; when the
  signature-confirmation promise resolves afterwards, the call is still rejected.
\<close>

theorem nonce_divergence_counterexample:
  "settled (after [Settles 1 (Rejected (OtherError ''nonce N1 advanced to N2''))]
     (waitForDurableNonceTransactionConfirmation feePayerSignature durableNonceScenario liveSignal))
     = Some (Rejected (OtherError ''nonce N1 advanced to N2'')) \<and>
   settled (after [Settles 1 (Rejected (OtherError ''nonce N1 advanced to N2'')),
                   Settles 0 (Resolved Undefined)]
     (waitForDurableNonceTransactionConfirmation feePayerSignature durableNonceScenario liveSignal))
     = Some (Rejected (OtherError ''nonce N1 advanced to N2'')) \<and>
   settled (after [Settles 1 (Rejected (OtherError ''nonce N1 advanced to N2'')),
                   Settles 0 (Resolved Undefined)]
     (waitForDurableNonceTransactionConfirmation feePayerSignature durableNonceScenario liveSignal))
     \<noteq> Some (Resolved Undefined)"
  by (simp add: settled_durable durable_start settle_def finallyBlock_def abort_def aborted_def
        removeListener_def)


subsection \<open>The positional read of the nonce account\<close>

text \<open>
  Claim C10, as the code has it. The read \<open>transaction.instructions[0].accounts[0].address\<close>
  has no guard. It is defined on every transaction whose first instruction has a first
  account, and gives that account's address. On a transaction without a first
  instruction, or whose first instruction has no accounts or an empty account list, a call
  that got past the early abort check and the signature derivation is rejected with a
  \<open>TypeError\<close>, and no factory is ever invoked: neither the nonce-invalidation promise
  nor the signature-confirmation promise is created.
\<close>

theorem nonce_account_access:
  "(instructions tx = ins # rest \<and> accounts ins = Some (acct # others) \<longrightarrow>
      nonceAccountAddress tx = Inr (address acct)) \<and>
   ((instructions (transaction config) = [] \<or>
     (\<exists>i is. instructions (transaction config) = i # is \<and>
        (accounts i = None \<or> accounts i = Some []))) \<and>
    abortSignal config = CallerSignal \<and> \<not> aborted cs \<and> g (transaction config) = Inr sg \<longrightarrow>
      settled (after es (waitForDurableNonceTransactionConfirmation g config cs))
        = Some (Rejected TypeError) \<and>
      calls (world (after es (waitForDurableNonceTransactionConfirmation g config cs))) = [])"
proof (intro conjI impI)
  assume "instructions tx = ins # rest \<and> accounts ins = Some (acct # others)"
  then show "nonceAccountAddress tx = Inr (address acct)"
    by (simp add: nonceAccountAddress_first)
next
  assume h: "(instructions (transaction config) = [] \<or>
     (\<exists>i is. instructions (transaction config) = i # is \<and>
        (accounts i = None \<or> accounts i = Some []))) \<and>
    abortSignal config = CallerSignal \<and> \<not> aborted cs \<and> g (transaction config) = Inr sg"
  then have c: "abortSignal config = CallerSignal" and n: "\<not> aborted cs"
    and sg: "g (transaction config) = Inr sg" by simp_all
  from h have "nonceAccountAddress (transaction config) = Inl TypeError"
    by (intro nonceAccountAddress_missing) simp
  then have s: "getSpecificStrategiesForRace_durableNonce (config\<lparr>abortSignal := ControllerSignal\<rparr>)
      = ([], Inl TypeError)"
    by (simp add: getSpecificStrategiesForRace_durableNonce_def Let_def)
  let ?w = "world (raceStrategies g config getSpecificStrategiesForRace_durableNonce cs)"
  have w: "?w = settle (Rejected TypeError) (finallyBlock ((tryEntry cs)\<lparr>calls := []\<rparr>))"
    unfolding raceStrategies_entry [of config cs g sg, OF c n sg] by (simp add: s)
  then have "\<not> awaiting ?w" and o: "outcome ?w = Some (Rejected TypeError)"
    and k: "calls ?w = []"
    by (simp_all add: settle_def finallyBlock_def)
  from run_not_awaiting [OF this(1), of es] o
  have "outcome (run es ?w) = Some (Rejected TypeError)" by simp
  then show "settled (after es (waitForDurableNonceTransactionConfirmation g config cs))
        = Some (Rejected TypeError)"
    by (simp add: settled_durable)
  from k show "calls (world (after es (waitForDurableNonceTransactionConfirmation g config cs))) = []"
    by (simp add: world_durable calls_run)
qed

theorem nonce_account_access_witness:
  "instructions durableNonceTransaction =
     \<lparr>accounts = Some [\<lparr>address = ''NonceAccount''\<rparr>, \<lparr>address = ''Authority''\<rparr>],
      programAddress = ''System''\<rparr> # [] \<and>
   nonceAccountAddress durableNonceTransaction = Inr ''NonceAccount'' \<and>
   instructions (transaction noInstructionScenario) = [] \<and>
   abortSignal noInstructionScenario = CallerSignal \<and> \<not> aborted liveSignal \<and>
   feePayerSignature (transaction noInstructionScenario) = Inr ''Sig1'' \<and>
   settled (after [Settles 0 (Resolved Undefined)]
     (waitForDurableNonceTransactionConfirmation feePayerSignature noInstructionScenario liveSignal))
     = Some (Rejected TypeError) \<and>
   calls (world (after [Settles 0 (Resolved Undefined)]
     (waitForDurableNonceTransactionConfirmation feePayerSignature noInstructionScenario liveSignal)))
     = []"
proof -
  have a: "instructions durableNonceTransaction =
     \<lparr>accounts = Some [\<lparr>address = ''NonceAccount''\<rparr>, \<lparr>address = ''Authority''\<rparr>],
      programAddress = ''System''\<rparr> # []"
    by (simp add: durableNonceTransaction_def)
  have b: "accounts \<lparr>accounts = Some [\<lparr>address = ''NonceAccount''\<rparr>, \<lparr>address = ''Authority''\<rparr>],
      programAddress = ''System''\<rparr> = Some (\<lparr>address = ''NonceAccount''\<rparr> # [\<lparr>address = ''Authority''\<rparr>])"
    by simp
  have c: "instructions (transaction noInstructionScenario) = []"
    by (simp add: noInstructionScenario_def scenario_defs)
  have d: "abortSignal noInstructionScenario = CallerSignal"
    by (simp add: noInstructionScenario_def scenario_defs)
  have e: "\<not> aborted liveSignal"
    by (simp add: liveSignal_def aborted_def)
  have f: "feePayerSignature (transaction noInstructionScenario) = Inr ''Sig1''"
    by (simp add: noInstructionScenario_def scenario_defs)
  have v: "address \<lparr>address = ''NonceAccount''\<rparr> = ''NonceAccount''" by simp
  note t = nonce_account_access [where tx = durableNonceTransaction
      and ins = "\<lparr>accounts = Some [\<lparr>address = ''NonceAccount''\<rparr>, \<lparr>address = ''Authority''\<rparr>],
                  programAddress = ''System''\<rparr>"
      and rest = "[]" and acct = "\<lparr>address = ''NonceAccount''\<rparr>"
      and others = "[\<lparr>address = ''Authority''\<rparr>]"
      and config = noInstructionScenario and cs = liveSignal and g = feePayerSignature
      and sg = "''Sig1''" and es = "[Settles 0 (Resolved Undefined)]", unfolded v]
  from t a b c d e f show ?thesis by blast
qed

text \<open>
  Against claim C10 as stated: the transaction of \<open>noInstructionScenario\<close> violates the
  positional precondition, yet on a caller's signal that is already aborted the call is
  rejected with the caller's abort reason, not with a \<open>TypeError\<close>; and when the
  signature derivation throws (here for want of the fee payer's signature), the call is
  rejected with the error it threw.
\<close>

theorem positional_access_counterexample:
  "instructions (transaction noInstructionScenario) = [] \<and>
   settled (waitForDurableNonceTransactionConfirmation feePayerSignature
      noInstructionScenario firedSignal) = Some (Rejected (OtherError ''cancelled by user'')) \<and>
   instructions (transaction unsignedScenario) = [] \<and>
   settled (waitForDurableNonceTransactionConfirmation feePayerSignature
      unsignedScenario liveSignal) = Some (Rejected (OtherError ''missing fee payer signature''))"
  by (simp add: noInstructionScenario_def unsignedScenario_def scenario_defs settled_def
        waitForDurableNonceTransactionConfirmation_def awaitVoid_def raceStrategies_def
        startCall_def throwIfAborted_def settle_def)

subsection \<open>The default confirmers\<close>

lemma discardValue_idem [simp]: "discardValue (discardValue s) = discardValue s"
  by (cases s) simp_all

lemma awaitVoid_idem [simp]: "awaitVoid (awaitVoid c) = awaitVoid c"
  by (simp add: awaitVoid_def option.map_comp comp_def)

text \<open>
  Claim C9. Creating a default confirmer calls its two factory constructors once each,
  in the order of the source and with the given endpoints (the block-height constructor
  takes the subscriptions endpoint only): the state after the creation is the state the
  second constructor leaves when it starts from the state the first one left. Every call
  of the returned function, on any config, any caller's signal and any state \<open>st'\<close> of
  the environment at the time of the call, calls no constructor, so \<open>st'\<close> comes back
  unchanged; and it leaves behind the state and returns the promise of the waiter called
  with the caller's fields and the two factories built at creation, which do not depend
  on the call.
\<close>

theorem default_confirmers:
  "snd (createDefaultDurableNonceTransactionConfirmer g mkNonce mkSignature rpc subs st) =
     snd (mkSignature rpc subs (snd (mkNonce rpc subs st))) \<and>
   fst (createDefaultDurableNonceTransactionConfirmer g mkNonce mkSignature rpc subs st)
       config cs st' =
     (waitForDurableNonceTransactionConfirmation g
        \<lparr>abortSignal = abortSignal config, commitment = commitment config,
         transaction = transaction config,
         getRecentSignatureConfirmationPromise =
           fst (mkSignature rpc subs (snd (mkNonce rpc subs st))),
         getNonceInvalidationPromise = fst (mkNonce rpc subs st)\<rparr> cs,
      st') \<and>
   snd (createDefaultRecentTransactionConfirmer g' mkHeight mkSignature' rpc' subs' st0) =
     snd (mkSignature' rpc' subs' (snd (mkHeight subs' st0))) \<and>
   fst (createDefaultRecentTransactionConfirmer g' mkHeight mkSignature' rpc' subs' st0)
       config' cs' st0' =
     (waitForRecentTransactionConfirmation g'
        \<lparr>abortSignal = abortSignal config', commitment = commitment config',
         transaction = transaction config',
         getRecentSignatureConfirmationPromise =
           fst (mkSignature' rpc' subs' (snd (mkHeight subs' st0))),
         getBlockHeightExceedencePromise = fst (mkHeight subs' st0)\<rparr> cs',
      st0')"
proof (intro conjI)
  show "snd (createDefaultDurableNonceTransactionConfirmer g mkNonce mkSignature rpc subs st) =
     snd (mkSignature rpc subs (snd (mkNonce rpc subs st)))"
    by (simp add: createDefaultDurableNonceTransactionConfirmer_def split: prod.splits)
  show "fst (createDefaultDurableNonceTransactionConfirmer g mkNonce mkSignature rpc subs st)
       config cs st' =
     (waitForDurableNonceTransactionConfirmation g
        \<lparr>abortSignal = abortSignal config, commitment = commitment config,
         transaction = transaction config,
         getRecentSignatureConfirmationPromise =
           fst (mkSignature rpc subs (snd (mkNonce rpc subs st))),
         getNonceInvalidationPromise = fst (mkNonce rpc subs st)\<rparr> cs,
      st')"
    by (simp add: createDefaultDurableNonceTransactionConfirmer_def
          waitForDurableNonceTransactionConfirmation_def split: prod.splits)
  show "snd (createDefaultRecentTransactionConfirmer g' mkHeight mkSignature' rpc' subs' st0) =
     snd (mkSignature' rpc' subs' (snd (mkHeight subs' st0)))"
    by (simp add: createDefaultRecentTransactionConfirmer_def split: prod.splits)
  show "fst (createDefaultRecentTransactionConfirmer g' mkHeight mkSignature' rpc' subs' st0)
       config' cs' st0' =
     (waitForRecentTransactionConfirmation g'
        \<lparr>abortSignal = abortSignal config', commitment = commitment config',
         transaction = transaction config',
         getRecentSignatureConfirmationPromise =
           fst (mkSignature' rpc' subs' (snd (mkHeight subs' st0))),
         getBlockHeightExceedencePromise = fst (mkHeight subs' st0)\<rparr> cs',
      st0')"
    by (simp add: createDefaultRecentTransactionConfirmer_def
          waitForRecentTransactionConfirmation_def split: prod.splits)
qed

text \<open>
  Evaluated with the constructors that log their calls, starting from the empty log:
  after the creation the log holds the two constructions, and a call of the confirmer,
  and a second call after it, return the log as it was and behave as the waiter on the
  scenario's config.
\<close>

theorem default_confirmers_witness:
  "snd (createDefaultDurableNonceTransactionConfirmer feePayerSignature
     loggedNonceConstructor loggedSignatureConstructor ''rpc'' ''ws'' []) =
     [NonceInvalidationPromiseFactory ''rpc'' ''ws'',
      RecentSignatureConfirmationPromiseFactory ''rpc'' ''ws''] \<and>
   fst (createDefaultDurableNonceTransactionConfirmer feePayerSignature
     loggedNonceConstructor loggedSignatureConstructor ''rpc'' ''ws'' [])
     durableNonceCallerConfig liveSignal
     [NonceInvalidationPromiseFactory ''rpc'' ''ws'',
      RecentSignatureConfirmationPromiseFactory ''rpc'' ''ws''] =
     (waitForDurableNonceTransactionConfirmation feePayerSignature durableNonceScenario liveSignal,
      [NonceInvalidationPromiseFactory ''rpc'' ''ws'',
       RecentSignatureConfirmationPromiseFactory ''rpc'' ''ws'']) \<and>
   snd (fst (createDefaultDurableNonceTransactionConfirmer feePayerSignature
     loggedNonceConstructor loggedSignatureConstructor ''rpc'' ''ws'' [])
     durableNonceCallerConfig firedSignal
     (snd (fst (createDefaultDurableNonceTransactionConfirmer feePayerSignature
       loggedNonceConstructor loggedSignatureConstructor ''rpc'' ''ws'' [])
       durableNonceCallerConfig liveSignal
       [NonceInvalidationPromiseFactory ''rpc'' ''ws'',
        RecentSignatureConfirmationPromiseFactory ''rpc'' ''ws'']))) =
     [NonceInvalidationPromiseFactory ''rpc'' ''ws'',
      RecentSignatureConfirmationPromiseFactory ''rpc'' ''ws''] \<and>
   snd (createDefaultRecentTransactionConfirmer feePayerSignature
     loggedBlockHeightConstructor loggedSignatureConstructor ''rpc'' ''ws'' []) =
     [BlockHeightExceedencePromiseFactory ''ws'',
      RecentSignatureConfirmationPromiseFactory ''rpc'' ''ws''] \<and>
   fst (createDefaultRecentTransactionConfirmer feePayerSignature
     loggedBlockHeightConstructor loggedSignatureConstructor ''rpc'' ''ws'' [])
     recentCallerConfig liveSignal
     [BlockHeightExceedencePromiseFactory ''ws'',
      RecentSignatureConfirmationPromiseFactory ''rpc'' ''ws''] =
     (waitForRecentTransactionConfirmation feePayerSignature recentScenario liveSignal,
      [BlockHeightExceedencePromiseFactory ''ws'',
       RecentSignatureConfirmationPromiseFactory ''rpc'' ''ws''])"
proof -
  let ?L = "[NonceInvalidationPromiseFactory ''rpc'' ''ws'',
             RecentSignatureConfirmationPromiseFactory ''rpc'' ''ws'']"
  let ?M = "[BlockHeightExceedencePromiseFactory ''ws'',
             RecentSignatureConfirmationPromiseFactory ''rpc'' ''ws'']"
  have d: "\<lparr>abortSignal = abortSignal durableNonceCallerConfig,
            commitment = commitment durableNonceCallerConfig,
            transaction = transaction durableNonceCallerConfig,
            getRecentSignatureConfirmationPromise =
              fst (loggedSignatureConstructor ''rpc'' ''ws''
                (snd (loggedNonceConstructor ''rpc'' ''ws'' []))),
            getNonceInvalidationPromise = fst (loggedNonceConstructor ''rpc'' ''ws'' [])\<rparr>
           = durableNonceScenario"
    by (simp add: durableNonceCallerConfig_def durableNonceScenario_def
          loggedSignatureConstructor_def loggedNonceConstructor_def)
  have r: "\<lparr>abortSignal = abortSignal recentCallerConfig,
            commitment = commitment recentCallerConfig,
            transaction = transaction recentCallerConfig,
            getRecentSignatureConfirmationPromise =
              fst (loggedSignatureConstructor ''rpc'' ''ws''
                (snd (loggedBlockHeightConstructor ''ws'' []))),
            getBlockHeightExceedencePromise = fst (loggedBlockHeightConstructor ''ws'' [])\<rparr>
           = recentScenario"
    by (simp add: recentCallerConfig_def recentScenario_def
          loggedSignatureConstructor_def loggedBlockHeightConstructor_def)
  have l: "snd (loggedSignatureConstructor ''rpc'' ''ws''
             (snd (loggedNonceConstructor ''rpc'' ''ws'' []))) = ?L"
    "snd (loggedSignatureConstructor ''rpc'' ''ws''
             (snd (loggedBlockHeightConstructor ''ws'' []))) = ?M"
    by (simp_all add: loggedSignatureConstructor_def loggedNonceConstructor_def
          loggedBlockHeightConstructor_def)
  note t1 = default_confirmers [where g = feePayerSignature and mkNonce = loggedNonceConstructor
      and mkSignature = loggedSignatureConstructor and rpc = "''rpc''" and subs = "''ws''"
      and st = "[]" and config = durableNonceCallerConfig and cs = liveSignal and st' = ?L
      and g' = feePayerSignature and mkHeight = loggedBlockHeightConstructor
      and mkSignature' = loggedSignatureConstructor and rpc' = "''rpc''" and subs' = "''ws''"
      and ?st0.0 = "[]" and config' = recentCallerConfig and cs' = liveSignal and st0' = ?M,
      unfolded d r l]
  note t2 = default_confirmers [where g = feePayerSignature and mkNonce = loggedNonceConstructor
      and mkSignature = loggedSignatureConstructor and rpc = "''rpc''" and subs = "''ws''"
      and st = "[]" and config = durableNonceCallerConfig and cs = firedSignal and st' = ?L]
  from t1 have 1: "fst (createDefaultDurableNonceTransactionConfirmer feePayerSignature
     loggedNonceConstructor loggedSignatureConstructor ''rpc'' ''ws'' [])
     durableNonceCallerConfig liveSignal ?L =
     (waitForDurableNonceTransactionConfirmation feePayerSignature durableNonceScenario liveSignal, ?L)"
    by blast
  have 2: "snd (fst (createDefaultDurableNonceTransactionConfirmer feePayerSignature
     loggedNonceConstructor loggedSignatureConstructor ''rpc'' ''ws'' [])
     durableNonceCallerConfig firedSignal ?L) = ?L"
    by (simp only: t2 [THEN conjunct2, THEN conjunct1] snd_conv)
  have 3: "snd (fst (createDefaultDurableNonceTransactionConfirmer feePayerSignature
     loggedNonceConstructor loggedSignatureConstructor ''rpc'' ''ws'' [])
     durableNonceCallerConfig firedSignal
     (snd (fst (createDefaultDurableNonceTransactionConfirmer feePayerSignature
       loggedNonceConstructor loggedSignatureConstructor ''rpc'' ''ws'' [])
       durableNonceCallerConfig liveSignal ?L))) = ?L"
    unfolding 1 snd_conv by (rule 2)
  from t1 1 3 show ?thesis by blast
qed

end
